theory Spec2Isabelle
  imports Main "HOL-Library.Word" "HOL-Library.AList"
begin

unbundle bit_operations_syntax

section \<open>Common types\<close>

type_synonym byte = "8 word"
type_synonym u32 = "32 word"
type_synonym u64 = "64 word"

text \<open>
  A Go \<^verbatim>\<open>error\<close> value is modelled by its message; a run-time panic (index out of
  range, nil map, explicit \<^verbatim>\<open>panic\<close>) is a separate outcome, so that no HOL default
  value ever stands in for a crash.
\<close>

datatype error = Error string | Panic string

section \<open>config.go: RuntimeConfig\<close>

text \<open>
  Modelled from the spec: \<^verbatim>\<open>wasm.Features\<close>, its \<^verbatim>\<open>Set\<close>/\<^verbatim>\<open>Get\<close> methods and
  the presets \<^verbatim>\<open>Features20191205\<close> and \<^verbatim>\<open>Features20220419\<close> are declared in
  package \<^verbatim>\<open>internal/wasm\<close>, which is not part of the sources at hand. The spec lists the
  seven feature flags and the two presets: \<^verbatim>\<open>wasm_core_1\<close> is only \<^verbatim>\<open>mutable_global\<close>,
  \<^verbatim>\<open>wasm_core_2\<close> is all of them. A flag set is a set of flags; \<^verbatim>\<open>Set\<close> adds or removes
  one flag and leaves the others alone.
\<close>

datatype Feature =
    FeatureBulkMemoryOperations
  | FeatureMultiValue
  | FeatureMutableGlobal
  | FeatureNonTrappingFloatToIntConversion
  | FeatureReferenceTypes
  | FeatureSignExtensionOps
  | FeatureSIMD

type_synonym Features = "Feature set"

definition Features_Set :: "Features \<Rightarrow> Feature \<Rightarrow> bool \<Rightarrow> Features" where
  "Features_Set f feature val = (if val then insert feature f else f - {feature})"

definition Features_Get :: "Features \<Rightarrow> Feature \<Rightarrow> bool" where
  "Features_Get f feature = (feature \<in> f)"

definition Features20191205 :: Features where
  "Features20191205 = {FeatureMutableGlobal}"

definition Features20220419 :: Features where
  "Features20220419 =
     {FeatureBulkMemoryOperations, FeatureMultiValue, FeatureMutableGlobal,
      FeatureNonTrappingFloatToIntConversion, FeatureReferenceTypes,
      FeatureSignExtensionOps, FeatureSIMD}"

text \<open>
  \<^verbatim>\<open>runtimeConfig.newEngine\<close> is a function value; only which constructor it names
  matters here (\<open>None\<close> is the nil of \<^verbatim>\<open>engineLessConfig\<close>).
\<close>

datatype engineCtor = compiler_NewEngine | interpreter_NewEngine

record runtimeConfig =
  enabledFeatures :: Features
  newEngine :: "engineCtor option"

definition engineLessConfig :: runtimeConfig where
  "engineLessConfig = \<lparr>enabledFeatures = Features20191205, newEngine = None\<rparr>"

definition NewRuntimeConfigCompiler :: runtimeConfig where
  "NewRuntimeConfigCompiler = engineLessConfig\<lparr>newEngine := Some compiler_NewEngine\<rparr>"

definition NewRuntimeConfigInterpreter :: runtimeConfig where
  "NewRuntimeConfigInterpreter = engineLessConfig\<lparr>newEngine := Some interpreter_NewEngine\<rparr>"

text \<open>Every method copies the receiver (\<^verbatim>\<open>ret := *c\<close>) and returns the changed copy.\<close>

definition WithFeatureBulkMemoryOperations :: "runtimeConfig \<Rightarrow> bool \<Rightarrow> runtimeConfig" where
  "WithFeatureBulkMemoryOperations c enabled =
     (let ret = c;
          ret = ret\<lparr>enabledFeatures :=
                  Features_Set (enabledFeatures ret) FeatureBulkMemoryOperations enabled\<rparr>;
          ret = ret\<lparr>enabledFeatures :=
                  Features_Set (enabledFeatures ret) FeatureReferenceTypes enabled\<rparr>
      in ret)"

definition WithFeatureMultiValue :: "runtimeConfig \<Rightarrow> bool \<Rightarrow> runtimeConfig" where
  "WithFeatureMultiValue c enabled =
     c\<lparr>enabledFeatures := Features_Set (enabledFeatures c) FeatureMultiValue enabled\<rparr>"

definition WithFeatureMutableGlobal :: "runtimeConfig \<Rightarrow> bool \<Rightarrow> runtimeConfig" where
  "WithFeatureMutableGlobal c enabled =
     c\<lparr>enabledFeatures := Features_Set (enabledFeatures c) FeatureMutableGlobal enabled\<rparr>"

definition WithFeatureNonTrappingFloatToIntConversion :: "runtimeConfig \<Rightarrow> bool \<Rightarrow> runtimeConfig" where
  "WithFeatureNonTrappingFloatToIntConversion c enabled =
     c\<lparr>enabledFeatures :=
         Features_Set (enabledFeatures c) FeatureNonTrappingFloatToIntConversion enabled\<rparr>"

definition WithFeatureReferenceTypes :: "runtimeConfig \<Rightarrow> bool \<Rightarrow> runtimeConfig" where
  "WithFeatureReferenceTypes c enabled =
     (let ret = c;
          ret = ret\<lparr>enabledFeatures :=
                  Features_Set (enabledFeatures ret) FeatureReferenceTypes enabled\<rparr>;
          ret = ret\<lparr>enabledFeatures :=
                  Features_Set (enabledFeatures ret) FeatureBulkMemoryOperations enabled\<rparr>
      in ret)"

definition WithFeatureSignExtensionOps :: "runtimeConfig \<Rightarrow> bool \<Rightarrow> runtimeConfig" where
  "WithFeatureSignExtensionOps c enabled =
     c\<lparr>enabledFeatures := Features_Set (enabledFeatures c) FeatureSignExtensionOps enabled\<rparr>"

definition WithFeatureSIMD :: "runtimeConfig \<Rightarrow> bool \<Rightarrow> runtimeConfig" where
  "WithFeatureSIMD c enabled =
     c\<lparr>enabledFeatures := Features_Set (enabledFeatures c) FeatureSIMD enabled\<rparr>"

definition WithWasmCore1 :: "runtimeConfig \<Rightarrow> runtimeConfig" where
  "WithWasmCore1 c = c\<lparr>enabledFeatures := Features20191205\<rparr>"

definition WithWasmCore2 :: "runtimeConfig \<Rightarrow> runtimeConfig" where
  "WithWasmCore2 c = c\<lparr>enabledFeatures := Features20220419\<rparr>"

text \<open>
  A configuration is produced by one of the two constructors followed by any chain of
  \<^verbatim>\<open>With*\<close> calls. The chain is data, so that "every configuration produced by the
  With* methods" is a statement about every list of calls.
\<close>

datatype runtimeCall =
    CallBulkMemoryOperations bool
  | CallMultiValue bool
  | CallMutableGlobal bool
  | CallNonTrappingFloatToIntConversion bool
  | CallReferenceTypes bool
  | CallSignExtensionOps bool
  | CallSIMD bool
  | CallWasmCore1
  | CallWasmCore2

fun runtimeCall_apply :: "runtimeConfig \<Rightarrow> runtimeCall \<Rightarrow> runtimeConfig" where
  "runtimeCall_apply c (CallBulkMemoryOperations b) = WithFeatureBulkMemoryOperations c b"
| "runtimeCall_apply c (CallMultiValue b) = WithFeatureMultiValue c b"
| "runtimeCall_apply c (CallMutableGlobal b) = WithFeatureMutableGlobal c b"
| "runtimeCall_apply c (CallNonTrappingFloatToIntConversion b) =
     WithFeatureNonTrappingFloatToIntConversion c b"
| "runtimeCall_apply c (CallReferenceTypes b) = WithFeatureReferenceTypes c b"
| "runtimeCall_apply c (CallSignExtensionOps b) = WithFeatureSignExtensionOps c b"
| "runtimeCall_apply c (CallSIMD b) = WithFeatureSIMD c b"
| "runtimeCall_apply c CallWasmCore1 = WithWasmCore1 c"
| "runtimeCall_apply c CallWasmCore2 = WithWasmCore2 c"

definition runtimeConfig_chain :: "runtimeConfig \<Rightarrow> runtimeCall list \<Rightarrow> runtimeConfig" where
  "runtimeConfig_chain c calls = foldl runtimeCall_apply c calls"

definition bulk_iff_reference :: "runtimeConfig \<Rightarrow> bool" where
  "bulk_iff_reference c =
     (Features_Get (enabledFeatures c) FeatureBulkMemoryOperations
        = Features_Get (enabledFeatures c) FeatureReferenceTypes)"

section \<open>config.go: ModuleConfig\<close>

text \<open>
  Go's maps and slices are references. \<^verbatim>\<open>ret := *c\<close> copies the struct, and with it the
  references, not what they point to. The store below holds what they point to, so that a
  write through the copy is seen through the receiver exactly when Go shares it.
  A map is the list of its entries in insertion order (keys distinct); a backing array
  is a function from index to cell, its capacity being recorded in the slices over it.
\<close>

type_synonym addr = nat

text \<open>\<^verbatim>\<open>fs.FS\<close>, \<^verbatim>\<open>io.Reader\<close> and \<^verbatim>\<open>io.Writer\<close> are interface values of the
  host; only their identity and whether they are nil (\<open>None\<close>) matter.\<close>

type_synonym fs_FS = nat
type_synonym io_stream = nat

text \<open>An open \<^verbatim>\<open>fs.File\<close>, as far as reading goes: its bytes and the read position.\<close>

record fs_File =
  file_data :: "byte list"
  file_pos :: nat

text \<open>\<^verbatim>\<open>wasm.FileEntry\<close>; the pre-opened entries that \<^verbatim>\<open>setFS\<close> makes have no
  \<^verbatim>\<open>File\<close>.\<close>

record FileEntry =
  Path :: string
  FS :: "fs_FS option"
  File :: "fs_File option"

record slice =
  slice_array :: "addr option"
  slice_len :: nat
  slice_cap :: nat

definition nil_slice :: slice where
  "nil_slice = \<lparr>slice_array = None, slice_len = 0, slice_cap = 0\<rparr>"

record heap =
  stringArrays :: "addr \<Rightarrow> nat \<Rightarrow> string"
  intMaps :: "addr \<Rightarrow> (string \<times> nat) list"
  entryMaps :: "addr \<Rightarrow> (u32 \<times> FileEntry) list"
  fdMaps :: "addr \<Rightarrow> (string \<times> u32) list"
  nextAddr :: addr

definition empty_heap :: heap where
  "empty_heap = \<lparr>stringArrays = (\<lambda>_ _. []), intMaps = (\<lambda>_. []), entryMaps = (\<lambda>_. []),
                  fdMaps = (\<lambda>_. []), nextAddr = 0\<rparr>"

record moduleConfig =
  name :: string
  startFunctions :: "string list"
  stdin :: "io_stream option"
  stdout :: "io_stream option"
  stderr :: "io_stream option"
  args :: "string list"
  environ :: slice
  environKeys :: "addr option"
  preopenFD :: u32
  preopens :: "addr option"
  preopenPaths :: "addr option"

text \<open>The elements of a slice, read through the store.\<close>

definition slice_elems :: "heap \<Rightarrow> slice \<Rightarrow> string list" where
  "slice_elems h s =
     (case slice_array s of
        None \<Rightarrow> []
      | Some a \<Rightarrow> map (stringArrays h a) [0..<slice_len s])"

text \<open>What a caller can see of a configuration's environment and pre-opened paths.\<close>

definition environ_entries :: "heap \<Rightarrow> moduleConfig \<Rightarrow> string list" where
  "environ_entries h c = slice_elems h (environ c)"

definition environKeys_entries :: "heap \<Rightarrow> moduleConfig \<Rightarrow> (string \<times> nat) list" where
  "environKeys_entries h c = (case environKeys c of None \<Rightarrow> [] | Some a \<Rightarrow> intMaps h a)"

definition preopens_entries :: "heap \<Rightarrow> moduleConfig \<Rightarrow> (u32 \<times> FileEntry) list" where
  "preopens_entries h c = (case preopens c of None \<Rightarrow> [] | Some a \<Rightarrow> entryMaps h a)"

definition preopenPaths_entries :: "heap \<Rightarrow> moduleConfig \<Rightarrow> (string \<times> u32) list" where
  "preopenPaths_entries h c = (case preopenPaths c of None \<Rightarrow> [] | Some a \<Rightarrow> fdMaps h a)"

text \<open>\<^verbatim>\<open>NewModuleConfig\<close>: three fresh, empty maps; \<^verbatim>\<open>environ\<close> and \<^verbatim>\<open>args\<close> are nil.\<close>

definition NewModuleConfig :: "heap \<Rightarrow> moduleConfig \<times> heap" where
  "NewModuleConfig h =
     (let a = nextAddr h;
          h' = h\<lparr>intMaps := (intMaps h)(a := []),
                 entryMaps := (entryMaps h)(a + 1 := []),
                 fdMaps := (fdMaps h)(a + 2 := []),
                 nextAddr := a + 3\<rparr>
      in (\<lparr>name = [], startFunctions = [''_start''], stdin = None, stdout = None, stderr = None,
           args = [], environ = nil_slice, environKeys = Some a, preopenFD = 3,
           preopens = Some (a + 1), preopenPaths = Some (a + 2)\<rparr>, h'))"

definition WithArgs :: "moduleConfig \<Rightarrow> string list \<Rightarrow> heap \<Rightarrow> moduleConfig \<times> heap" where
  "WithArgs c as h = (c\<lparr>args := as\<rparr>, h)"

text \<open>
  Go's \<^verbatim>\<open>append(s, key, value)\<close>: with room in the backing array the two cells after
  the slice's length are written in place; otherwise a new array is allocated and the
  elements copied. The capacity of the new array is the Go runtime's choice, taken here
  as the parameter \<open>grow\<close> (old capacity and needed length to new capacity).
\<close>

definition append2 ::
  "(nat \<Rightarrow> nat \<Rightarrow> nat) \<Rightarrow> slice \<Rightarrow> string \<Rightarrow> string \<Rightarrow> heap \<Rightarrow> slice \<times> heap" where
  "append2 grow s x y h =
     (let n = slice_len s in
      case slice_array s of
        Some a \<Rightarrow>
          if n + 2 \<le> slice_cap s then
            (s\<lparr>slice_len := n + 2\<rparr>,
             h\<lparr>stringArrays := (stringArrays h)(a := (stringArrays h a)(n := x, n + 1 := y))\<rparr>)
          else
            (let b = nextAddr h;
                 cells = (\<lambda>i. if i < n then stringArrays h a i else [])
             in (\<lparr>slice_array = Some b, slice_len = n + 2, slice_cap = grow (slice_cap s) (n + 2)\<rparr>,
                 h\<lparr>stringArrays := (stringArrays h)(b := cells(n := x, n + 1 := y)),
                   nextAddr := b + 1\<rparr>))
      | None \<Rightarrow>
          (let b = nextAddr h
           in (\<lparr>slice_array = Some b, slice_len = n + 2, slice_cap = grow (slice_cap s) (n + 2)\<rparr>,
               h\<lparr>stringArrays := (stringArrays h)(b := (\<lambda>_. [])(n := x, n + 1 := y)),
                 nextAddr := b + 1\<rparr>)))"

text \<open>One admissible choice of the runtime: allocate exactly what is needed.\<close>

definition grow_exact :: "nat \<Rightarrow> nat \<Rightarrow> nat" where
  "grow_exact old needed = needed"

definition WithEnv ::
  "(nat \<Rightarrow> nat \<Rightarrow> nat) \<Rightarrow> moduleConfig \<Rightarrow> string \<Rightarrow> string \<Rightarrow> heap
     \<Rightarrow> error + (moduleConfig \<times> heap)" where
  "WithEnv grow c key val h =
     (let ret = c in
      case map_of (environKeys_entries h ret) key of
        Some i \<Rightarrow>
          (case slice_array (environ ret) of
             Some a \<Rightarrow>
               if i + 1 < slice_len (environ ret) then
                 Inr (ret, h\<lparr>stringArrays :=
                           (stringArrays h)(a := (stringArrays h a)(i + 1 := val))\<rparr>)
               else Inl (Panic ''index out of range'')
           | None \<Rightarrow> Inl (Panic ''index out of range''))
      | None \<Rightarrow>
          (case environKeys ret of
             None \<Rightarrow> Inl (Panic ''assignment to entry in nil map'')
           | Some m \<Rightarrow>
               (let h1 = h\<lparr>intMaps := (intMaps h)
                            (m := AList.update key (slice_len (environ ret)) (intMaps h m))\<rparr>;
                    (s, h2) = append2 grow (environ ret) key val h1
                in Inr (ret\<lparr>environ := s\<rparr>, h2))))"

text \<open>\<^verbatim>\<open>setFS\<close> runs on the copy \<^verbatim>\<open>ret\<close>: the two maps it writes are the receiver's too,
  the counter \<^verbatim>\<open>preopenFD\<close> is the copy's own (a \<^verbatim>\<open>uint32\<close>, so \<^verbatim>\<open>++\<close> wraps).\<close>

definition setFS ::
  "moduleConfig \<Rightarrow> string \<Rightarrow> fs_FS option \<Rightarrow> heap \<Rightarrow> error + (moduleConfig \<times> heap)" where
  "setFS c path fs h =
     (let entry = \<lparr>Path = path, FS = fs, File = None\<rparr> in
      case map_of (preopenPaths_entries h c) path of
        Some fd \<Rightarrow>
          (case preopens c of
             None \<Rightarrow> Inl (Panic ''assignment to entry in nil map'')
           | Some p \<Rightarrow>
               Inr (c, h\<lparr>entryMaps := (entryMaps h)(p := AList.update fd entry (entryMaps h p))\<rparr>))
      | None \<Rightarrow>
          (case (preopens c, preopenPaths c) of
             (Some p, Some q) \<Rightarrow>
               Inr (c\<lparr>preopenFD := preopenFD c + 1\<rparr>,
                    h\<lparr>entryMaps := (entryMaps h)
                         (p := AList.update (preopenFD c) entry (entryMaps h p)),
                      fdMaps := (fdMaps h)
                         (q := AList.update path (preopenFD c) (fdMaps h q))\<rparr>)
           | _ \<Rightarrow> Inl (Panic ''assignment to entry in nil map'')))"

definition WithFS ::
  "moduleConfig \<Rightarrow> fs_FS option \<Rightarrow> heap \<Rightarrow> error + (moduleConfig \<times> heap)" where
  "WithFS c fs h = setFS c ''/'' fs h"

definition WithName :: "moduleConfig \<Rightarrow> string \<Rightarrow> heap \<Rightarrow> moduleConfig \<times> heap" where
  "WithName c n h = (c\<lparr>name := n\<rparr>, h)"

definition WithStartFunctions :: "moduleConfig \<Rightarrow> string list \<Rightarrow> heap \<Rightarrow> moduleConfig \<times> heap" where
  "WithStartFunctions c fns h = (c\<lparr>startFunctions := fns\<rparr>, h)"

definition WithStderr :: "moduleConfig \<Rightarrow> io_stream option \<Rightarrow> heap \<Rightarrow> moduleConfig \<times> heap" where
  "WithStderr c w h = (c\<lparr>stderr := w\<rparr>, h)"

definition WithStdin :: "moduleConfig \<Rightarrow> io_stream option \<Rightarrow> heap \<Rightarrow> moduleConfig \<times> heap" where
  "WithStdin c r h = (c\<lparr>stdin := r\<rparr>, h)"

definition WithStdout :: "moduleConfig \<Rightarrow> io_stream option \<Rightarrow> heap \<Rightarrow> moduleConfig \<times> heap" where
  "WithStdout c w h = (c\<lparr>stdout := w\<rparr>, h)"

definition WithWorkDirFS ::
  "moduleConfig \<Rightarrow> fs_FS option \<Rightarrow> heap \<Rightarrow> error + (moduleConfig \<times> heap)" where
  "WithWorkDirFS c fs h = setFS c ''.'' fs h"

text \<open>
  \<^verbatim>\<open>toSysContext\<close>, first loop: the pair-indexed \<^verbatim>\<open>c.environ\<close> is read two cells at
  a time (an odd length makes \<^verbatim>\<open>c.environ[i+1]\<close> panic before the key is looked at); the
  first empty key or key holding \<^verbatim>\<open>=\<close> ends the call with its error.
\<close>

fun environ_loop :: "string list \<Rightarrow> string list \<Rightarrow> error + string list" where
  "environ_loop [] environ' = Inr environ'"
| "environ_loop [key] environ' = Inl (Panic ''index out of range'')"
| "environ_loop (key # val # rest) environ' =
     (if length key = 0 then Inl (Error ''environ invalid: empty key'')
      else if \<exists>j < length key. key ! j = CHR ''=''
      then Inl (Error ''environ invalid: key contains '=' character'')
      else environ_loop rest (environ' @ [key @ ''='' @ val]))"

text \<open>
  Second loop, over the pre-opened entries. Go visits a map in no fixed order; the model
  visits in insertion order. The order only decides which nil file system is reported
  when several are.
\<close>

fun preopens_loop ::
  "(u32 \<times> FileEntry) list \<Rightarrow> u32 \<Rightarrow> bool \<Rightarrow> error + (u32 \<times> bool)" where
  "preopens_loop [] rootFD setWorkDirFS = Inr (rootFD, setWorkDirFS)"
| "preopens_loop ((fd, entry) # rest) rootFD setWorkDirFS =
     (if FS entry = None then Inl (Error (''FS for '' @ Path entry @ '' is nil''))
      else if Path entry = ''/'' then preopens_loop rest fd setWorkDirFS
      else if Path entry = ''.'' then preopens_loop rest rootFD True
      else preopens_loop rest rootFD setWorkDirFS)"

text \<open>
  \<^verbatim>\<open>wasm.NewSysContext\<close> is declared outside the sources at hand; \<^verbatim>\<open>toSysContext\<close>
  takes it as the parameter \<open>newSys\<close> and returns whatever it returns. Its arguments are
  the maximum size, the arguments, the rendered environment, the three streams and the
  entries of the pre-opened map.
\<close>

type_synonym 'sys newSysContext =
  "u32 \<Rightarrow> string list \<Rightarrow> string list \<Rightarrow> io_stream option \<Rightarrow> io_stream option
     \<Rightarrow> io_stream option \<Rightarrow> (u32 \<times> FileEntry) list \<Rightarrow> error + 'sys"

definition toSysContext ::
  "'sys newSysContext \<Rightarrow> moduleConfig \<Rightarrow> heap \<Rightarrow> error + ('sys \<times> heap)" where
  "toSysContext newSys c h =
     (case environ_loop (slice_elems h (environ c)) [] of
        Inl e \<Rightarrow> Inl e
      | Inr environ' \<Rightarrow>
          (case preopens_loop (preopens_entries h c) 0 False of
             Inl e \<Rightarrow> Inl e
           | Inr (rootFD, setWorkDirFS) \<Rightarrow>
               (let h' =
                  (if rootFD \<noteq> 0 \<and> \<not> setWorkDirFS then
                     (case (preopens c, map_of (preopens_entries h c) rootFD) of
                        (Some p, Some root) \<Rightarrow>
                          h\<lparr>entryMaps := (entryMaps h)
                              (p := AList.update (preopenFD c) \<lparr>Path = ''.'', FS = FS root, File = None\<rparr>
                                      (entryMaps h p))\<rparr>
                      | _ \<Rightarrow> h)
                   else h)
                in case newSys (- 1) (args c) environ' (stdin c) (stdout c) (stderr c)
                          (preopens_entries h' c) of
                     Inl e \<Rightarrow> Inl e
                   | Inr sys \<Rightarrow> Inr (sys, h'))))"

text \<open>
  Modelled from the spec: \<^verbatim>\<open>wasm.NewSysContext\<close> (package \<^verbatim>\<open>internal/wasm\<close>) is missing
  from the sources. The spec's host ABI hands every argument and environment string to the
  guest NUL-terminated, and \<^verbatim>\<open>toSysContext\<close> notes at its own key check
  "NUL enforced in NewSysContext": the constructor refuses a string that holds a NUL and
  otherwise records what it is given.
\<close>

record SysContext =
  sys_args :: "string list"
  sys_environ :: "string list"
  sys_stdin :: "io_stream option"
  sys_stdout :: "io_stream option"
  sys_stderr :: "io_stream option"
  sys_openedFiles :: "(u32 \<times> FileEntry) list"

definition NewSysContext :: "SysContext newSysContext" where
  "NewSysContext maxSize as env sin sout serr opened =
     (if \<exists>a \<in> set as. CHR 0x00 \<in> set a then Inl (Error ''args invalid: contains NUL character'')
      else if \<exists>e \<in> set env. CHR 0x00 \<in> set e
      then Inl (Error ''environ invalid: contains NUL character'')
      else Inr \<lparr>sys_args = as, sys_environ = env, sys_stdin = sin, sys_stdout = sout,
                sys_stderr = serr, sys_openedFiles = opened\<rparr>)"

text \<open>Vocabulary for statements about \<^verbatim>\<open>toSysContext\<close>: the pair-indexed layout of
  \<^verbatim>\<open>environ\<close>, the keys the first loop refuses, and the rendering of one pair.\<close>

definition pairs_of :: "(string \<times> string) list \<Rightarrow> string list" where
  "pairs_of kvs = concat (map (\<lambda>kv. [fst kv, snd kv]) kvs)"

definition bad_key :: "string \<Rightarrow> bool" where
  "bad_key key = (key = [] \<or> CHR ''='' \<in> set key)"

definition render :: "string \<times> string \<Rightarrow> string" where
  "render kv = fst kv @ ''='' @ snd kv"

definition all_FS_set :: "(u32 \<times> FileEntry) list \<Rightarrow> bool" where
  "all_FS_set entries = list_all (\<lambda>fe. FS (snd fe) \<noteq> None) entries"

text \<open>Two configurations built through the public methods, used as concrete inputs:
  \<^verbatim>\<open>NewModuleConfig().WithEnv("a", "b").WithFS(fs)\<close> and
  \<^verbatim>\<open>NewModuleConfig().WithEnv("a\x00", "b")\<close>.\<close>

definition config_a_b_rootfs :: "moduleConfig \<times> heap" where
  "config_a_b_rootfs =
     (case NewModuleConfig empty_heap of
        (c0, h0) \<Rightarrow>
          (case WithEnv grow_exact c0 ''a'' ''b'' h0 of
             Inl _ \<Rightarrow> (c0, h0)
           | Inr (c1, h1) \<Rightarrow> (case WithFS c1 (Some 7) h1 of Inl _ \<Rightarrow> (c1, h1) | Inr r \<Rightarrow> r)))"

definition config_nul_key :: "moduleConfig \<times> heap" where
  "config_nul_key =
     (case NewModuleConfig empty_heap of
        (c0, h0) \<Rightarrow>
          (case WithEnv grow_exact c0 [CHR ''a'', CHR 0x00] ''b'' h0 of
             Inl _ \<Rightarrow> (c0, h0)
           | Inr r \<Rightarrow> r))"

section \<open>internal/wazeroir/compiler.go: lowering function bodies to the IR\<close>

subsection \<open>Types of the packages around the compiler\<close>

text \<open>
  Modelled from the spec: the value types, function types and global types of package
  \<^verbatim>\<open>internal/wasm\<close> and the IR operations of \<^verbatim>\<open>wazeroir/operations.go\<close> are used by
  \<^verbatim>\<open>compiler.go\<close> but declared outside the sources at hand. The spec names the seven value
  types, describes a function type as ordered parameter and result types, a label as a
  frame identifier with one of three kinds, and a drop range as an inclusive interval of
  stack slots. Every constructor and field below carries the name and the arguments under
  which \<^verbatim>\<open>compiler.go\<close> builds it; a float constant is kept as its bit pattern.
\<close>

datatype ValueType =
    ValueTypeI32 | ValueTypeI64 | ValueTypeF32 | ValueTypeF64 | ValueTypeV128
  | ValueTypeFuncref | ValueTypeExternref

record FunctionType =
  Params :: "ValueType list"
  Results :: "ValueType list"
  ParamNumInUint64 :: int
  ResultNumInUint64 :: int

record GlobalType =
  ValType :: ValueType
  Mutable :: bool

datatype UnsignedInt = UnsignedInt32 | UnsignedInt64

datatype UnsignedType =
    UnsignedTypeI32 | UnsignedTypeI64 | UnsignedTypeF32 | UnsignedTypeF64 | UnsignedTypeUnknown

datatype SignedInt = SignedInt32 | SignedInt64 | SignedUint32 | SignedUint64

datatype SignedType =
    SignedTypeInt32 | SignedTypeUint32 | SignedTypeInt64 | SignedTypeUint64
  | SignedTypeFloat32 | SignedTypeFloat64

datatype Float = Float32 | Float64

datatype LabelKind = LabelKindHeader | LabelKindElse | LabelKindContinuation

record Label =
  FrameID :: u32
  Kind :: LabelKind

record InclusiveRange =
  Start :: int
  End :: int

text \<open>A \<^verbatim>\<open>BranchTarget\<close> with a nil label is the return from the function.\<close>

record BranchTarget =
  TargetLabel :: "Label option"

record BranchTargetDrop =
  Target :: BranchTarget
  ToDrop :: "InclusiveRange option"

record MemoryImmediate =
  Alignment :: u32
  Offset :: u32

datatype ControlOperation =
    OperationUnreachable
  | OperationLabel Label
  | OperationBr BranchTarget
  | OperationBrIf BranchTargetDrop BranchTargetDrop
  | OperationBrTable "BranchTargetDrop list" BranchTargetDrop
  | OperationCall u32
  | OperationCallIndirect u32 u32
  | OperationDrop "InclusiveRange option"
  | OperationSelect
  | OperationPick int
  | OperationSwap int
  | OperationGlobalGet u32
  | OperationGlobalSet u32

datatype MemoryOperation =
    OperationLoad UnsignedType MemoryImmediate
  | OperationLoad8 SignedInt MemoryImmediate
  | OperationLoad16 SignedInt MemoryImmediate
  | OperationLoad32 bool MemoryImmediate
  | OperationStore UnsignedType MemoryImmediate
  | OperationStore8 UnsignedInt MemoryImmediate
  | OperationStore16 UnsignedInt MemoryImmediate
  | OperationStore32 MemoryImmediate
  | OperationMemorySize
  | OperationMemoryGrow
  | OperationMemoryInit u32
  | OperationDataDrop u32
  | OperationMemoryCopy
  | OperationMemoryFill

datatype ConstOperation =
    OperationConstI32 u32
  | OperationConstI64 u64
  | OperationConstF32 u32
  | OperationConstF64 u64
  | OperationConstV128 u64 u64

datatype NumericOperation =
    OperationEq UnsignedType
  | OperationNe UnsignedType
  | OperationEqz UnsignedInt
  | OperationLt SignedType
  | OperationGt SignedType
  | OperationLe SignedType
  | OperationGe SignedType
  | OperationAdd UnsignedType
  | OperationSub UnsignedType
  | OperationMul UnsignedType
  | OperationClz UnsignedInt
  | OperationCtz UnsignedInt
  | OperationPopcnt UnsignedInt
  | OperationDiv SignedType
  | OperationRem SignedInt
  | OperationAnd UnsignedInt
  | OperationOr UnsignedInt
  | OperationXor UnsignedInt
  | OperationShl UnsignedInt
  | OperationShr SignedInt
  | OperationRotl UnsignedInt
  | OperationRotr UnsignedInt

datatype FloatingOperation =
    OperationAbs Float
  | OperationNeg Float
  | OperationCeil Float
  | OperationFloor Float
  | OperationTrunc Float
  | OperationNearest Float
  | OperationSqrt Float
  | OperationMin Float
  | OperationMax Float
  | OperationCopysign Float

datatype ConversionOperation =
    OperationI32WrapFromI64
  | OperationITruncFromF Float SignedInt bool
  | OperationFConvertFromI SignedInt Float
  | OperationF32DemoteFromF64
  | OperationF64PromoteFromF32
  | OperationI32ReinterpretFromF32
  | OperationI64ReinterpretFromF64
  | OperationF32ReinterpretFromI32
  | OperationF64ReinterpretFromI64
  | OperationExtend bool
  | OperationSignExtend32From8
  | OperationSignExtend32From16
  | OperationSignExtend64From8
  | OperationSignExtend64From16
  | OperationSignExtend64From32

datatype TableOperation =
    OperationTableInit u32 u32
  | OperationElemDrop u32
  | OperationTableCopy u32 u32
  | OperationRefFunc u32
  | OperationTableGet u32
  | OperationTableSet u32
  | OperationTableSize u32
  | OperationTableGrow u32
  | OperationTableFill u32

datatype VectorOperation =
    OperationI32x4Add
  | OperationI64x2Add

text \<open>
  \<^verbatim>\<open>Operation\<close> is one interface in the source. The operations are declared above in
  families, each constructor under its source name, and joined here; the family tag carries
  no information of its own.
\<close>

datatype Operation =
    OpControl ControlOperation
  | OpMemory MemoryOperation
  | OpConst ConstOperation
  | OpNumeric NumericOperation
  | OpFloating FloatingOperation
  | OpConversion ConversionOperation
  | OpTable TableOperation
  | OpVector VectorOperation

text \<open>
  The arguments follow the field order of the struct literals in \<^verbatim>\<open>compiler.go\<close>:
  \<^verbatim>\<open>OperationBrIf\<close> is \<^verbatim>\<open>Then\<close>, \<^verbatim>\<open>Else\<close>; \<^verbatim>\<open>OperationBrTable\<close> is \<^verbatim>\<open>Targets\<close>,
  \<^verbatim>\<open>Default\<close>; \<^verbatim>\<open>OperationCallIndirect\<close> is \<^verbatim>\<open>TypeIndex\<close>, \<^verbatim>\<open>TableIndex\<close>;
  \<^verbatim>\<open>OperationITruncFromF\<close> is \<^verbatim>\<open>InputType\<close>, \<^verbatim>\<open>OutputType\<close>, \<^verbatim>\<open>NonTrapping\<close>;
  \<^verbatim>\<open>OperationTableInit\<close> is \<^verbatim>\<open>ElemIndex\<close>, \<^verbatim>\<open>TableIndex\<close>; \<^verbatim>\<open>OperationTableCopy\<close> is
  \<^verbatim>\<open>SrcTableIndex\<close>, \<^verbatim>\<open>DstTableIndex\<close>; \<^verbatim>\<open>OperationConstV128\<close> is \<^verbatim>\<open>Lo\<close>, \<^verbatim>\<open>Hi\<close>;
  \<^verbatim>\<open>OperationLoad32\<close> and \<^verbatim>\<open>OperationExtend\<close> carry \<^verbatim>\<open>Signed\<close>.
\<close>

subsection \<open>Opcodes\<close>

text \<open>
  Modelled from the spec: the constants \<^verbatim>\<open>wasm.Opcode*\<close> are declared in package
  \<^verbatim>\<open>internal/wasm\<close>, outside the sources at hand. The spec fixes the external format as
  the WebAssembly binary encoding, whose opcode bytes these are. The names are those the
  lowering pass uses.
\<close>

definition OpcodeUnreachable :: byte where "OpcodeUnreachable = 0x00"
definition OpcodeNop :: byte where "OpcodeNop = 0x01"
definition OpcodeBlock :: byte where "OpcodeBlock = 0x02"
definition OpcodeLoop :: byte where "OpcodeLoop = 0x03"
definition OpcodeIf :: byte where "OpcodeIf = 0x04"
definition OpcodeElse :: byte where "OpcodeElse = 0x05"
definition OpcodeEnd :: byte where "OpcodeEnd = 0x0b"
definition OpcodeBr :: byte where "OpcodeBr = 0x0c"
definition OpcodeBrIf :: byte where "OpcodeBrIf = 0x0d"
definition OpcodeBrTable :: byte where "OpcodeBrTable = 0x0e"
definition OpcodeReturn :: byte where "OpcodeReturn = 0x0f"
definition OpcodeCall :: byte where "OpcodeCall = 0x10"
definition OpcodeCallIndirect :: byte where "OpcodeCallIndirect = 0x11"
definition OpcodeDrop :: byte where "OpcodeDrop = 0x1a"
definition OpcodeSelect :: byte where "OpcodeSelect = 0x1b"
definition OpcodeTypedSelect :: byte where "OpcodeTypedSelect = 0x1c"
definition OpcodeLocalGet :: byte where "OpcodeLocalGet = 0x20"
definition OpcodeLocalSet :: byte where "OpcodeLocalSet = 0x21"
definition OpcodeLocalTee :: byte where "OpcodeLocalTee = 0x22"
definition OpcodeGlobalGet :: byte where "OpcodeGlobalGet = 0x23"
definition OpcodeGlobalSet :: byte where "OpcodeGlobalSet = 0x24"
definition OpcodeI32Load :: byte where "OpcodeI32Load = 0x28"
definition OpcodeI64Load :: byte where "OpcodeI64Load = 0x29"
definition OpcodeF32Load :: byte where "OpcodeF32Load = 0x2a"
definition OpcodeF64Load :: byte where "OpcodeF64Load = 0x2b"
definition OpcodeI32Load8S :: byte where "OpcodeI32Load8S = 0x2c"
definition OpcodeI32Load8U :: byte where "OpcodeI32Load8U = 0x2d"
definition OpcodeI32Load16S :: byte where "OpcodeI32Load16S = 0x2e"
definition OpcodeI32Load16U :: byte where "OpcodeI32Load16U = 0x2f"
definition OpcodeI64Load8S :: byte where "OpcodeI64Load8S = 0x30"
definition OpcodeI64Load8U :: byte where "OpcodeI64Load8U = 0x31"
definition OpcodeI64Load16S :: byte where "OpcodeI64Load16S = 0x32"
definition OpcodeI64Load16U :: byte where "OpcodeI64Load16U = 0x33"
definition OpcodeI64Load32S :: byte where "OpcodeI64Load32S = 0x34"
definition OpcodeI64Load32U :: byte where "OpcodeI64Load32U = 0x35"
definition OpcodeI32Store :: byte where "OpcodeI32Store = 0x36"
definition OpcodeI64Store :: byte where "OpcodeI64Store = 0x37"
definition OpcodeF32Store :: byte where "OpcodeF32Store = 0x38"
definition OpcodeF64Store :: byte where "OpcodeF64Store = 0x39"
definition OpcodeI32Store8 :: byte where "OpcodeI32Store8 = 0x3a"
definition OpcodeI32Store16 :: byte where "OpcodeI32Store16 = 0x3b"
definition OpcodeI64Store8 :: byte where "OpcodeI64Store8 = 0x3c"
definition OpcodeI64Store16 :: byte where "OpcodeI64Store16 = 0x3d"
definition OpcodeI64Store32 :: byte where "OpcodeI64Store32 = 0x3e"
definition OpcodeMemorySize :: byte where "OpcodeMemorySize = 0x3f"
definition OpcodeMemoryGrow :: byte where "OpcodeMemoryGrow = 0x40"
definition OpcodeI32Const :: byte where "OpcodeI32Const = 0x41"
definition OpcodeI64Const :: byte where "OpcodeI64Const = 0x42"
definition OpcodeF32Const :: byte where "OpcodeF32Const = 0x43"
definition OpcodeF64Const :: byte where "OpcodeF64Const = 0x44"
definition OpcodeI32Eqz :: byte where "OpcodeI32Eqz = 0x45"
definition OpcodeI32Eq :: byte where "OpcodeI32Eq = 0x46"
definition OpcodeI32Ne :: byte where "OpcodeI32Ne = 0x47"
definition OpcodeI32LtS :: byte where "OpcodeI32LtS = 0x48"
definition OpcodeI32LtU :: byte where "OpcodeI32LtU = 0x49"
definition OpcodeI32GtS :: byte where "OpcodeI32GtS = 0x4a"
definition OpcodeI32GtU :: byte where "OpcodeI32GtU = 0x4b"
definition OpcodeI32LeS :: byte where "OpcodeI32LeS = 0x4c"
definition OpcodeI32LeU :: byte where "OpcodeI32LeU = 0x4d"
definition OpcodeI32GeS :: byte where "OpcodeI32GeS = 0x4e"
definition OpcodeI32GeU :: byte where "OpcodeI32GeU = 0x4f"
definition OpcodeI64Eqz :: byte where "OpcodeI64Eqz = 0x50"
definition OpcodeI64Eq :: byte where "OpcodeI64Eq = 0x51"
definition OpcodeI64Ne :: byte where "OpcodeI64Ne = 0x52"
definition OpcodeI64LtS :: byte where "OpcodeI64LtS = 0x53"
definition OpcodeI64LtU :: byte where "OpcodeI64LtU = 0x54"
definition OpcodeI64GtS :: byte where "OpcodeI64GtS = 0x55"
definition OpcodeI64GtU :: byte where "OpcodeI64GtU = 0x56"
definition OpcodeI64LeS :: byte where "OpcodeI64LeS = 0x57"
definition OpcodeI64LeU :: byte where "OpcodeI64LeU = 0x58"
definition OpcodeI64GeS :: byte where "OpcodeI64GeS = 0x59"
definition OpcodeI64GeU :: byte where "OpcodeI64GeU = 0x5a"
definition OpcodeF32Eq :: byte where "OpcodeF32Eq = 0x5b"
definition OpcodeF32Ne :: byte where "OpcodeF32Ne = 0x5c"
definition OpcodeF32Lt :: byte where "OpcodeF32Lt = 0x5d"
definition OpcodeF32Gt :: byte where "OpcodeF32Gt = 0x5e"
definition OpcodeF32Le :: byte where "OpcodeF32Le = 0x5f"
definition OpcodeF32Ge :: byte where "OpcodeF32Ge = 0x60"
definition OpcodeF64Eq :: byte where "OpcodeF64Eq = 0x61"
definition OpcodeF64Ne :: byte where "OpcodeF64Ne = 0x62"
definition OpcodeF64Lt :: byte where "OpcodeF64Lt = 0x63"
definition OpcodeF64Gt :: byte where "OpcodeF64Gt = 0x64"
definition OpcodeF64Le :: byte where "OpcodeF64Le = 0x65"
definition OpcodeF64Ge :: byte where "OpcodeF64Ge = 0x66"
definition OpcodeI32Clz :: byte where "OpcodeI32Clz = 0x67"
definition OpcodeI32Ctz :: byte where "OpcodeI32Ctz = 0x68"
definition OpcodeI32Popcnt :: byte where "OpcodeI32Popcnt = 0x69"
definition OpcodeI32Add :: byte where "OpcodeI32Add = 0x6a"
definition OpcodeI32Sub :: byte where "OpcodeI32Sub = 0x6b"
definition OpcodeI32Mul :: byte where "OpcodeI32Mul = 0x6c"
definition OpcodeI32DivS :: byte where "OpcodeI32DivS = 0x6d"
definition OpcodeI32DivU :: byte where "OpcodeI32DivU = 0x6e"
definition OpcodeI32RemS :: byte where "OpcodeI32RemS = 0x6f"
definition OpcodeI32RemU :: byte where "OpcodeI32RemU = 0x70"
definition OpcodeI32And :: byte where "OpcodeI32And = 0x71"
definition OpcodeI32Or :: byte where "OpcodeI32Or = 0x72"
definition OpcodeI32Xor :: byte where "OpcodeI32Xor = 0x73"
definition OpcodeI32Shl :: byte where "OpcodeI32Shl = 0x74"
definition OpcodeI32ShrS :: byte where "OpcodeI32ShrS = 0x75"
definition OpcodeI32ShrU :: byte where "OpcodeI32ShrU = 0x76"
definition OpcodeI32Rotl :: byte where "OpcodeI32Rotl = 0x77"
definition OpcodeI32Rotr :: byte where "OpcodeI32Rotr = 0x78"
definition OpcodeI64Clz :: byte where "OpcodeI64Clz = 0x79"
definition OpcodeI64Ctz :: byte where "OpcodeI64Ctz = 0x7a"
definition OpcodeI64Popcnt :: byte where "OpcodeI64Popcnt = 0x7b"
definition OpcodeI64Add :: byte where "OpcodeI64Add = 0x7c"
definition OpcodeI64Sub :: byte where "OpcodeI64Sub = 0x7d"
definition OpcodeI64Mul :: byte where "OpcodeI64Mul = 0x7e"
definition OpcodeI64DivS :: byte where "OpcodeI64DivS = 0x7f"
definition OpcodeI64DivU :: byte where "OpcodeI64DivU = 0x80"
definition OpcodeI64RemS :: byte where "OpcodeI64RemS = 0x81"
definition OpcodeI64RemU :: byte where "OpcodeI64RemU = 0x82"
definition OpcodeI64And :: byte where "OpcodeI64And = 0x83"
definition OpcodeI64Or :: byte where "OpcodeI64Or = 0x84"
definition OpcodeI64Xor :: byte where "OpcodeI64Xor = 0x85"
definition OpcodeI64Shl :: byte where "OpcodeI64Shl = 0x86"
definition OpcodeI64ShrS :: byte where "OpcodeI64ShrS = 0x87"
definition OpcodeI64ShrU :: byte where "OpcodeI64ShrU = 0x88"
definition OpcodeI64Rotl :: byte where "OpcodeI64Rotl = 0x89"
definition OpcodeI64Rotr :: byte where "OpcodeI64Rotr = 0x8a"
definition OpcodeF32Abs :: byte where "OpcodeF32Abs = 0x8b"
definition OpcodeF32Neg :: byte where "OpcodeF32Neg = 0x8c"
definition OpcodeF32Ceil :: byte where "OpcodeF32Ceil = 0x8d"
definition OpcodeF32Floor :: byte where "OpcodeF32Floor = 0x8e"
definition OpcodeF32Trunc :: byte where "OpcodeF32Trunc = 0x8f"
definition OpcodeF32Nearest :: byte where "OpcodeF32Nearest = 0x90"
definition OpcodeF32Sqrt :: byte where "OpcodeF32Sqrt = 0x91"
definition OpcodeF32Add :: byte where "OpcodeF32Add = 0x92"
definition OpcodeF32Sub :: byte where "OpcodeF32Sub = 0x93"
definition OpcodeF32Mul :: byte where "OpcodeF32Mul = 0x94"
definition OpcodeF32Div :: byte where "OpcodeF32Div = 0x95"
definition OpcodeF32Min :: byte where "OpcodeF32Min = 0x96"
definition OpcodeF32Max :: byte where "OpcodeF32Max = 0x97"
definition OpcodeF32Copysign :: byte where "OpcodeF32Copysign = 0x98"
definition OpcodeF64Abs :: byte where "OpcodeF64Abs = 0x99"
definition OpcodeF64Neg :: byte where "OpcodeF64Neg = 0x9a"
definition OpcodeF64Ceil :: byte where "OpcodeF64Ceil = 0x9b"
definition OpcodeF64Floor :: byte where "OpcodeF64Floor = 0x9c"
definition OpcodeF64Trunc :: byte where "OpcodeF64Trunc = 0x9d"
definition OpcodeF64Nearest :: byte where "OpcodeF64Nearest = 0x9e"
definition OpcodeF64Sqrt :: byte where "OpcodeF64Sqrt = 0x9f"
definition OpcodeF64Add :: byte where "OpcodeF64Add = 0xa0"
definition OpcodeF64Sub :: byte where "OpcodeF64Sub = 0xa1"
definition OpcodeF64Mul :: byte where "OpcodeF64Mul = 0xa2"
definition OpcodeF64Div :: byte where "OpcodeF64Div = 0xa3"
definition OpcodeF64Min :: byte where "OpcodeF64Min = 0xa4"
definition OpcodeF64Max :: byte where "OpcodeF64Max = 0xa5"
definition OpcodeF64Copysign :: byte where "OpcodeF64Copysign = 0xa6"
definition OpcodeI32WrapI64 :: byte where "OpcodeI32WrapI64 = 0xa7"
definition OpcodeI32TruncF32S :: byte where "OpcodeI32TruncF32S = 0xa8"
definition OpcodeI32TruncF32U :: byte where "OpcodeI32TruncF32U = 0xa9"
definition OpcodeI32TruncF64S :: byte where "OpcodeI32TruncF64S = 0xaa"
definition OpcodeI32TruncF64U :: byte where "OpcodeI32TruncF64U = 0xab"
definition OpcodeI64ExtendI32S :: byte where "OpcodeI64ExtendI32S = 0xac"
definition OpcodeI64ExtendI32U :: byte where "OpcodeI64ExtendI32U = 0xad"
definition OpcodeI64TruncF32S :: byte where "OpcodeI64TruncF32S = 0xae"
definition OpcodeI64TruncF32U :: byte where "OpcodeI64TruncF32U = 0xaf"
definition OpcodeI64TruncF64S :: byte where "OpcodeI64TruncF64S = 0xb0"
definition OpcodeI64TruncF64U :: byte where "OpcodeI64TruncF64U = 0xb1"
definition OpcodeF32ConvertI32s :: byte where "OpcodeF32ConvertI32s = 0xb2"
definition OpcodeF32ConvertI32U :: byte where "OpcodeF32ConvertI32U = 0xb3"
definition OpcodeF32ConvertI64S :: byte where "OpcodeF32ConvertI64S = 0xb4"
definition OpcodeF32ConvertI64U :: byte where "OpcodeF32ConvertI64U = 0xb5"
definition OpcodeF32DemoteF64 :: byte where "OpcodeF32DemoteF64 = 0xb6"
definition OpcodeF64ConvertI32S :: byte where "OpcodeF64ConvertI32S = 0xb7"
definition OpcodeF64ConvertI32U :: byte where "OpcodeF64ConvertI32U = 0xb8"
definition OpcodeF64ConvertI64S :: byte where "OpcodeF64ConvertI64S = 0xb9"
definition OpcodeF64ConvertI64U :: byte where "OpcodeF64ConvertI64U = 0xba"
definition OpcodeF64PromoteF32 :: byte where "OpcodeF64PromoteF32 = 0xbb"
definition OpcodeI32ReinterpretF32 :: byte where "OpcodeI32ReinterpretF32 = 0xbc"
definition OpcodeI64ReinterpretF64 :: byte where "OpcodeI64ReinterpretF64 = 0xbd"
definition OpcodeF32ReinterpretI32 :: byte where "OpcodeF32ReinterpretI32 = 0xbe"
definition OpcodeF64ReinterpretI64 :: byte where "OpcodeF64ReinterpretI64 = 0xbf"
definition OpcodeI32Extend8S :: byte where "OpcodeI32Extend8S = 0xc0"
definition OpcodeI32Extend16S :: byte where "OpcodeI32Extend16S = 0xc1"
definition OpcodeI64Extend8S :: byte where "OpcodeI64Extend8S = 0xc2"
definition OpcodeI64Extend16S :: byte where "OpcodeI64Extend16S = 0xc3"
definition OpcodeI64Extend32S :: byte where "OpcodeI64Extend32S = 0xc4"
definition OpcodeRefFunc :: byte where "OpcodeRefFunc = 0xd2"
definition OpcodeRefNull :: byte where "OpcodeRefNull = 0xd0"
definition OpcodeRefIsNull :: byte where "OpcodeRefIsNull = 0xd1"
definition OpcodeTableGet :: byte where "OpcodeTableGet = 0x25"
definition OpcodeTableSet :: byte where "OpcodeTableSet = 0x26"
definition OpcodeMiscPrefix :: byte where "OpcodeMiscPrefix = 0xfc"
definition OpcodeMiscI32TruncSatF32S :: byte where "OpcodeMiscI32TruncSatF32S = 0x00"
definition OpcodeMiscI32TruncSatF32U :: byte where "OpcodeMiscI32TruncSatF32U = 0x01"
definition OpcodeMiscI32TruncSatF64S :: byte where "OpcodeMiscI32TruncSatF64S = 0x02"
definition OpcodeMiscI32TruncSatF64U :: byte where "OpcodeMiscI32TruncSatF64U = 0x03"
definition OpcodeMiscI64TruncSatF32S :: byte where "OpcodeMiscI64TruncSatF32S = 0x04"
definition OpcodeMiscI64TruncSatF32U :: byte where "OpcodeMiscI64TruncSatF32U = 0x05"
definition OpcodeMiscI64TruncSatF64S :: byte where "OpcodeMiscI64TruncSatF64S = 0x06"
definition OpcodeMiscI64TruncSatF64U :: byte where "OpcodeMiscI64TruncSatF64U = 0x07"
definition OpcodeMiscMemoryInit :: byte where "OpcodeMiscMemoryInit = 0x08"
definition OpcodeMiscDataDrop :: byte where "OpcodeMiscDataDrop = 0x09"
definition OpcodeMiscMemoryCopy :: byte where "OpcodeMiscMemoryCopy = 0x0a"
definition OpcodeMiscMemoryFill :: byte where "OpcodeMiscMemoryFill = 0x0b"
definition OpcodeMiscTableInit :: byte where "OpcodeMiscTableInit = 0x0c"
definition OpcodeMiscElemDrop :: byte where "OpcodeMiscElemDrop = 0x0d"
definition OpcodeMiscTableCopy :: byte where "OpcodeMiscTableCopy = 0x0e"
definition OpcodeMiscTableGrow :: byte where "OpcodeMiscTableGrow = 0x0f"
definition OpcodeMiscTableSize :: byte where "OpcodeMiscTableSize = 0x10"
definition OpcodeMiscTableFill :: byte where "OpcodeMiscTableFill = 0x11"
definition OpcodeVecPrefix :: byte where "OpcodeVecPrefix = 0xfd"
definition OpcodeVecV128Const :: byte where "OpcodeVecV128Const = 0x0c"
definition OpcodeVecI32x4Add :: byte where "OpcodeVecI32x4Add = 0xae"
definition OpcodeVecI64x2Add :: byte where "OpcodeVecI64x2Add = 0xce"

lemmas opcode_defs =
  OpcodeUnreachable_def OpcodeNop_def OpcodeBlock_def OpcodeLoop_def OpcodeIf_def
  OpcodeElse_def OpcodeEnd_def OpcodeBr_def OpcodeBrIf_def OpcodeBrTable_def OpcodeReturn_def
  OpcodeCall_def OpcodeCallIndirect_def OpcodeDrop_def OpcodeSelect_def OpcodeTypedSelect_def
  OpcodeLocalGet_def OpcodeLocalSet_def OpcodeLocalTee_def OpcodeGlobalGet_def
  OpcodeGlobalSet_def OpcodeI32Load_def OpcodeI64Load_def OpcodeF32Load_def OpcodeF64Load_def
  OpcodeI32Load8S_def OpcodeI32Load8U_def OpcodeI32Load16S_def OpcodeI32Load16U_def
  OpcodeI64Load8S_def OpcodeI64Load8U_def OpcodeI64Load16S_def OpcodeI64Load16U_def
  OpcodeI64Load32S_def OpcodeI64Load32U_def OpcodeI32Store_def OpcodeI64Store_def
  OpcodeF32Store_def OpcodeF64Store_def OpcodeI32Store8_def OpcodeI32Store16_def
  OpcodeI64Store8_def OpcodeI64Store16_def OpcodeI64Store32_def OpcodeMemorySize_def
  OpcodeMemoryGrow_def OpcodeI32Const_def OpcodeI64Const_def OpcodeF32Const_def
  OpcodeF64Const_def OpcodeI32Eqz_def OpcodeI32Eq_def OpcodeI32Ne_def OpcodeI32LtS_def
  OpcodeI32LtU_def OpcodeI32GtS_def OpcodeI32GtU_def OpcodeI32LeS_def OpcodeI32LeU_def
  OpcodeI32GeS_def OpcodeI32GeU_def OpcodeI64Eqz_def OpcodeI64Eq_def OpcodeI64Ne_def
  OpcodeI64LtS_def OpcodeI64LtU_def OpcodeI64GtS_def OpcodeI64GtU_def OpcodeI64LeS_def
  OpcodeI64LeU_def OpcodeI64GeS_def OpcodeI64GeU_def OpcodeF32Eq_def OpcodeF32Ne_def
  OpcodeF32Lt_def OpcodeF32Gt_def OpcodeF32Le_def OpcodeF32Ge_def OpcodeF64Eq_def
  OpcodeF64Ne_def OpcodeF64Lt_def OpcodeF64Gt_def OpcodeF64Le_def OpcodeF64Ge_def
  OpcodeI32Clz_def OpcodeI32Ctz_def OpcodeI32Popcnt_def OpcodeI32Add_def OpcodeI32Sub_def
  OpcodeI32Mul_def OpcodeI32DivS_def OpcodeI32DivU_def OpcodeI32RemS_def OpcodeI32RemU_def
  OpcodeI32And_def OpcodeI32Or_def OpcodeI32Xor_def OpcodeI32Shl_def OpcodeI32ShrS_def
  OpcodeI32ShrU_def OpcodeI32Rotl_def OpcodeI32Rotr_def OpcodeI64Clz_def OpcodeI64Ctz_def
  OpcodeI64Popcnt_def OpcodeI64Add_def OpcodeI64Sub_def OpcodeI64Mul_def OpcodeI64DivS_def
  OpcodeI64DivU_def OpcodeI64RemS_def OpcodeI64RemU_def OpcodeI64And_def OpcodeI64Or_def
  OpcodeI64Xor_def OpcodeI64Shl_def OpcodeI64ShrS_def OpcodeI64ShrU_def OpcodeI64Rotl_def
  OpcodeI64Rotr_def OpcodeF32Abs_def OpcodeF32Neg_def OpcodeF32Ceil_def OpcodeF32Floor_def
  OpcodeF32Trunc_def OpcodeF32Nearest_def OpcodeF32Sqrt_def OpcodeF32Add_def OpcodeF32Sub_def
  OpcodeF32Mul_def OpcodeF32Div_def OpcodeF32Min_def OpcodeF32Max_def OpcodeF32Copysign_def
  OpcodeF64Abs_def OpcodeF64Neg_def OpcodeF64Ceil_def OpcodeF64Floor_def OpcodeF64Trunc_def
  OpcodeF64Nearest_def OpcodeF64Sqrt_def OpcodeF64Add_def OpcodeF64Sub_def OpcodeF64Mul_def
  OpcodeF64Div_def OpcodeF64Min_def OpcodeF64Max_def OpcodeF64Copysign_def OpcodeI32WrapI64_def
  OpcodeI32TruncF32S_def OpcodeI32TruncF32U_def OpcodeI32TruncF64S_def OpcodeI32TruncF64U_def
  OpcodeI64ExtendI32S_def OpcodeI64ExtendI32U_def OpcodeI64TruncF32S_def OpcodeI64TruncF32U_def
  OpcodeI64TruncF64S_def OpcodeI64TruncF64U_def OpcodeF32ConvertI32s_def
  OpcodeF32ConvertI32U_def OpcodeF32ConvertI64S_def OpcodeF32ConvertI64U_def
  OpcodeF32DemoteF64_def OpcodeF64ConvertI32S_def OpcodeF64ConvertI32U_def
  OpcodeF64ConvertI64S_def OpcodeF64ConvertI64U_def OpcodeF64PromoteF32_def
  OpcodeI32ReinterpretF32_def OpcodeI64ReinterpretF64_def OpcodeF32ReinterpretI32_def
  OpcodeF64ReinterpretI64_def OpcodeI32Extend8S_def OpcodeI32Extend16S_def
  OpcodeI64Extend8S_def OpcodeI64Extend16S_def OpcodeI64Extend32S_def OpcodeRefFunc_def
  OpcodeRefNull_def OpcodeRefIsNull_def OpcodeTableGet_def OpcodeTableSet_def
  OpcodeMiscPrefix_def OpcodeVecPrefix_def

lemmas misc_opcode_defs =
  OpcodeMiscI32TruncSatF32S_def OpcodeMiscI32TruncSatF32U_def OpcodeMiscI32TruncSatF64S_def
  OpcodeMiscI32TruncSatF64U_def OpcodeMiscI64TruncSatF32S_def OpcodeMiscI64TruncSatF32U_def
  OpcodeMiscI64TruncSatF64S_def OpcodeMiscI64TruncSatF64U_def OpcodeMiscMemoryInit_def
  OpcodeMiscDataDrop_def OpcodeMiscMemoryCopy_def OpcodeMiscMemoryFill_def
  OpcodeMiscTableInit_def OpcodeMiscElemDrop_def OpcodeMiscTableCopy_def
  OpcodeMiscTableGrow_def OpcodeMiscTableSize_def OpcodeMiscTableFill_def

lemmas vec_opcode_defs =
  OpcodeVecV128Const_def OpcodeVecI32x4Add_def OpcodeVecI64x2Add_def

text \<open>
  The cases of the switch in \<^verbatim>\<open>handleInstruction\<close> whose whole body is one
  \<^verbatim>\<open>c.emit(&Operation...{...})\<close>, in the order of the source: the opcode and the operation it
  emits. No immediate follows these opcodes.
\<close>

definition plainOperations :: "(byte \<times> Operation) list" where
  "plainOperations =
     [(OpcodeSelect, OpControl OperationSelect),
      (OpcodeI32Eqz, OpNumeric (OperationEqz UnsignedInt32)),
      (OpcodeI32Eq, OpNumeric (OperationEq UnsignedTypeI32)),
      (OpcodeI32Ne, OpNumeric (OperationNe UnsignedTypeI32)),
      (OpcodeI32LtS, OpNumeric (OperationLt SignedTypeInt32)),
      (OpcodeI32LtU, OpNumeric (OperationLt SignedTypeUint32)),
      (OpcodeI32GtS, OpNumeric (OperationGt SignedTypeInt32)),
      (OpcodeI32GtU, OpNumeric (OperationGt SignedTypeUint32)),
      (OpcodeI32LeS, OpNumeric (OperationLe SignedTypeInt32)),
      (OpcodeI32LeU, OpNumeric (OperationLe SignedTypeUint32)),
      (OpcodeI32GeS, OpNumeric (OperationGe SignedTypeInt32)),
      (OpcodeI32GeU, OpNumeric (OperationGe SignedTypeUint32)),
      (OpcodeI64Eqz, OpNumeric (OperationEqz UnsignedInt64)),
      (OpcodeI64Eq, OpNumeric (OperationEq UnsignedTypeI64)),
      (OpcodeI64Ne, OpNumeric (OperationNe UnsignedTypeI64)),
      (OpcodeI64LtS, OpNumeric (OperationLt SignedTypeInt64)),
      (OpcodeI64LtU, OpNumeric (OperationLt SignedTypeUint64)),
      (OpcodeI64GtS, OpNumeric (OperationGt SignedTypeInt64)),
      (OpcodeI64GtU, OpNumeric (OperationGt SignedTypeUint64)),
      (OpcodeI64LeS, OpNumeric (OperationLe SignedTypeInt64)),
      (OpcodeI64LeU, OpNumeric (OperationLe SignedTypeUint64)),
      (OpcodeI64GeS, OpNumeric (OperationGe SignedTypeInt64)),
      (OpcodeI64GeU, OpNumeric (OperationGe SignedTypeUint64)),
      (OpcodeF32Eq, OpNumeric (OperationEq UnsignedTypeF32)),
      (OpcodeF32Ne, OpNumeric (OperationNe UnsignedTypeF32)),
      (OpcodeF32Lt, OpNumeric (OperationLt SignedTypeFloat32)),
      (OpcodeF32Gt, OpNumeric (OperationGt SignedTypeFloat32)),
      (OpcodeF32Le, OpNumeric (OperationLe SignedTypeFloat32)),
      (OpcodeF32Ge, OpNumeric (OperationGe SignedTypeFloat32)),
      (OpcodeF64Eq, OpNumeric (OperationEq UnsignedTypeF64)),
      (OpcodeF64Ne, OpNumeric (OperationNe UnsignedTypeF64)),
      (OpcodeF64Lt, OpNumeric (OperationLt SignedTypeFloat64)),
      (OpcodeF64Gt, OpNumeric (OperationGt SignedTypeFloat64)),
      (OpcodeF64Le, OpNumeric (OperationLe SignedTypeFloat64)),
      (OpcodeF64Ge, OpNumeric (OperationGe SignedTypeFloat64)),
      (OpcodeI32Clz, OpNumeric (OperationClz UnsignedInt32)),
      (OpcodeI32Ctz, OpNumeric (OperationCtz UnsignedInt32)),
      (OpcodeI32Popcnt, OpNumeric (OperationPopcnt UnsignedInt32)),
      (OpcodeI32Add, OpNumeric (OperationAdd UnsignedTypeI32)),
      (OpcodeI32Sub, OpNumeric (OperationSub UnsignedTypeI32)),
      (OpcodeI32Mul, OpNumeric (OperationMul UnsignedTypeI32)),
      (OpcodeI32DivS, OpNumeric (OperationDiv SignedTypeInt32)),
      (OpcodeI32DivU, OpNumeric (OperationDiv SignedTypeUint32)),
      (OpcodeI32RemS, OpNumeric (OperationRem SignedInt32)),
      (OpcodeI32RemU, OpNumeric (OperationRem SignedUint32)),
      (OpcodeI32And, OpNumeric (OperationAnd UnsignedInt32)),
      (OpcodeI32Or, OpNumeric (OperationOr UnsignedInt32)),
      (OpcodeI32Xor, OpNumeric (OperationXor UnsignedInt64)),
      (OpcodeI32Shl, OpNumeric (OperationShl UnsignedInt32)),
      (OpcodeI32ShrS, OpNumeric (OperationShr SignedInt32)),
      (OpcodeI32ShrU, OpNumeric (OperationShr SignedUint32)),
      (OpcodeI32Rotl, OpNumeric (OperationRotl UnsignedInt32)),
      (OpcodeI32Rotr, OpNumeric (OperationRotr UnsignedInt32)),
      (OpcodeI64Clz, OpNumeric (OperationClz UnsignedInt64)),
      (OpcodeI64Ctz, OpNumeric (OperationCtz UnsignedInt64)),
      (OpcodeI64Popcnt, OpNumeric (OperationPopcnt UnsignedInt64)),
      (OpcodeI64Add, OpNumeric (OperationAdd UnsignedTypeI64)),
      (OpcodeI64Sub, OpNumeric (OperationSub UnsignedTypeI64)),
      (OpcodeI64Mul, OpNumeric (OperationMul UnsignedTypeI64)),
      (OpcodeI64DivS, OpNumeric (OperationDiv SignedTypeInt64)),
      (OpcodeI64DivU, OpNumeric (OperationDiv SignedTypeUint64)),
      (OpcodeI64RemS, OpNumeric (OperationRem SignedInt64)),
      (OpcodeI64RemU, OpNumeric (OperationRem SignedUint64)),
      (OpcodeI64And, OpNumeric (OperationAnd UnsignedInt64)),
      (OpcodeI64Or, OpNumeric (OperationOr UnsignedInt64)),
      (OpcodeI64Xor, OpNumeric (OperationXor UnsignedInt64)),
      (OpcodeI64Shl, OpNumeric (OperationShl UnsignedInt64)),
      (OpcodeI64ShrS, OpNumeric (OperationShr SignedInt64)),
      (OpcodeI64ShrU, OpNumeric (OperationShr SignedUint64)),
      (OpcodeI64Rotl, OpNumeric (OperationRotl UnsignedInt64)),
      (OpcodeI64Rotr, OpNumeric (OperationRotr UnsignedInt64)),
      (OpcodeF32Abs, OpFloating (OperationAbs Float32)),
      (OpcodeF32Neg, OpFloating (OperationNeg Float32)),
      (OpcodeF32Ceil, OpFloating (OperationCeil Float32)),
      (OpcodeF32Floor, OpFloating (OperationFloor Float32)),
      (OpcodeF32Trunc, OpFloating (OperationTrunc Float32)),
      (OpcodeF32Nearest, OpFloating (OperationNearest Float32)),
      (OpcodeF32Sqrt, OpFloating (OperationSqrt Float32)),
      (OpcodeF32Add, OpNumeric (OperationAdd UnsignedTypeF32)),
      (OpcodeF32Sub, OpNumeric (OperationSub UnsignedTypeF32)),
      (OpcodeF32Mul, OpNumeric (OperationMul UnsignedTypeF32)),
      (OpcodeF32Div, OpNumeric (OperationDiv SignedTypeFloat32)),
      (OpcodeF32Min, OpFloating (OperationMin Float32)),
      (OpcodeF32Max, OpFloating (OperationMax Float32)),
      (OpcodeF32Copysign, OpFloating (OperationCopysign Float32)),
      (OpcodeF64Abs, OpFloating (OperationAbs Float64)),
      (OpcodeF64Neg, OpFloating (OperationNeg Float64)),
      (OpcodeF64Ceil, OpFloating (OperationCeil Float64)),
      (OpcodeF64Floor, OpFloating (OperationFloor Float64)),
      (OpcodeF64Trunc, OpFloating (OperationTrunc Float64)),
      (OpcodeF64Nearest, OpFloating (OperationNearest Float64)),
      (OpcodeF64Sqrt, OpFloating (OperationSqrt Float64)),
      (OpcodeF64Add, OpNumeric (OperationAdd UnsignedTypeF64)),
      (OpcodeF64Sub, OpNumeric (OperationSub UnsignedTypeF64)),
      (OpcodeF64Mul, OpNumeric (OperationMul UnsignedTypeF64)),
      (OpcodeF64Div, OpNumeric (OperationDiv SignedTypeFloat64)),
      (OpcodeF64Min, OpFloating (OperationMin Float64)),
      (OpcodeF64Max, OpFloating (OperationMax Float64)),
      (OpcodeF64Copysign, OpFloating (OperationCopysign Float64)),
      (OpcodeI32WrapI64, OpConversion OperationI32WrapFromI64),
      (OpcodeI32TruncF32S, OpConversion (OperationITruncFromF Float32 SignedInt32 False)),
      (OpcodeI32TruncF32U, OpConversion (OperationITruncFromF Float32 SignedUint32 False)),
      (OpcodeI32TruncF64S, OpConversion (OperationITruncFromF Float64 SignedInt32 False)),
      (OpcodeI32TruncF64U, OpConversion (OperationITruncFromF Float64 SignedUint32 False)),
      (OpcodeI64ExtendI32S, OpConversion (OperationExtend True)),
      (OpcodeI64ExtendI32U, OpConversion (OperationExtend False)),
      (OpcodeI64TruncF32S, OpConversion (OperationITruncFromF Float32 SignedInt64 False)),
      (OpcodeI64TruncF32U, OpConversion (OperationITruncFromF Float32 SignedUint64 False)),
      (OpcodeI64TruncF64S, OpConversion (OperationITruncFromF Float64 SignedInt64 False)),
      (OpcodeI64TruncF64U, OpConversion (OperationITruncFromF Float64 SignedUint64 False)),
      (OpcodeF32ConvertI32s, OpConversion (OperationFConvertFromI SignedInt32 Float32)),
      (OpcodeF32ConvertI32U, OpConversion (OperationFConvertFromI SignedUint32 Float32)),
      (OpcodeF32ConvertI64S, OpConversion (OperationFConvertFromI SignedInt64 Float32)),
      (OpcodeF32ConvertI64U, OpConversion (OperationFConvertFromI SignedUint64 Float32)),
      (OpcodeF32DemoteF64, OpConversion OperationF32DemoteFromF64),
      (OpcodeF64ConvertI32S, OpConversion (OperationFConvertFromI SignedInt32 Float64)),
      (OpcodeF64ConvertI32U, OpConversion (OperationFConvertFromI SignedUint32 Float64)),
      (OpcodeF64ConvertI64S, OpConversion (OperationFConvertFromI SignedInt64 Float64)),
      (OpcodeF64ConvertI64U, OpConversion (OperationFConvertFromI SignedUint64 Float64)),
      (OpcodeF64PromoteF32, OpConversion OperationF64PromoteFromF32),
      (OpcodeI32ReinterpretF32, OpConversion OperationI32ReinterpretFromF32),
      (OpcodeI64ReinterpretF64, OpConversion OperationI64ReinterpretFromF64),
      (OpcodeF32ReinterpretI32, OpConversion OperationF32ReinterpretFromI32),
      (OpcodeF64ReinterpretI64, OpConversion OperationF64ReinterpretFromI64),
      (OpcodeI32Extend8S, OpConversion OperationSignExtend32From8),
      (OpcodeI32Extend16S, OpConversion OperationSignExtend32From16),
      (OpcodeI64Extend8S, OpConversion OperationSignExtend64From8),
      (OpcodeI64Extend16S, OpConversion OperationSignExtend64From16),
      (OpcodeI64Extend32S, OpConversion OperationSignExtend64From32),
      (OpcodeRefIsNull, OpNumeric (OperationEqz UnsignedInt64))]"

text \<open>
  The load and store cases: each reads a memory immediate with \<^verbatim>\<open>readMemoryImmediate\<close> and
  emits the operation built from it.
\<close>

definition memoryOperations :: "(byte \<times> (MemoryImmediate \<Rightarrow> Operation)) list" where
  "memoryOperations =
     [(OpcodeI32Load, \<lambda>imm. OpMemory (OperationLoad UnsignedTypeI32 imm)),
      (OpcodeI64Load, \<lambda>imm. OpMemory (OperationLoad UnsignedTypeI64 imm)),
      (OpcodeF32Load, \<lambda>imm. OpMemory (OperationLoad UnsignedTypeF32 imm)),
      (OpcodeF64Load, \<lambda>imm. OpMemory (OperationLoad UnsignedTypeF64 imm)),
      (OpcodeI32Load8S, \<lambda>imm. OpMemory (OperationLoad8 SignedInt32 imm)),
      (OpcodeI32Load8U, \<lambda>imm. OpMemory (OperationLoad8 SignedUint32 imm)),
      (OpcodeI32Load16S, \<lambda>imm. OpMemory (OperationLoad16 SignedInt32 imm)),
      (OpcodeI32Load16U, \<lambda>imm. OpMemory (OperationLoad16 SignedUint32 imm)),
      (OpcodeI64Load8S, \<lambda>imm. OpMemory (OperationLoad8 SignedInt64 imm)),
      (OpcodeI64Load8U, \<lambda>imm. OpMemory (OperationLoad8 SignedUint64 imm)),
      (OpcodeI64Load16S, \<lambda>imm. OpMemory (OperationLoad16 SignedInt64 imm)),
      (OpcodeI64Load16U, \<lambda>imm. OpMemory (OperationLoad16 SignedUint64 imm)),
      (OpcodeI64Load32S, \<lambda>imm. OpMemory (OperationLoad32 True imm)),
      (OpcodeI64Load32U, \<lambda>imm. OpMemory (OperationLoad32 False imm)),
      (OpcodeI32Store, \<lambda>imm. OpMemory (OperationStore UnsignedTypeI32 imm)),
      (OpcodeI64Store, \<lambda>imm. OpMemory (OperationStore UnsignedTypeI64 imm)),
      (OpcodeF32Store, \<lambda>imm. OpMemory (OperationStore UnsignedTypeF32 imm)),
      (OpcodeF64Store, \<lambda>imm. OpMemory (OperationStore UnsignedTypeF64 imm)),
      (OpcodeI32Store8, \<lambda>imm. OpMemory (OperationStore8 UnsignedInt32 imm)),
      (OpcodeI32Store16, \<lambda>imm. OpMemory (OperationStore16 UnsignedInt32 imm)),
      (OpcodeI64Store8, \<lambda>imm. OpMemory (OperationStore8 UnsignedInt64 imm)),
      (OpcodeI64Store16, \<lambda>imm. OpMemory (OperationStore16 UnsignedInt64 imm)),
      (OpcodeI64Store32, \<lambda>imm. OpMemory (OperationStore32 imm))]"

text \<open>
  After the prefix \<^verbatim>\<open>OpcodeMiscPrefix\<close>: the saturating truncations, each a single
  \<^verbatim>\<open>c.emit\<close>.
\<close>

definition miscTruncSatOperations :: "(byte \<times> Operation) list" where
  "miscTruncSatOperations =
     [(OpcodeMiscI32TruncSatF32S, OpConversion (OperationITruncFromF Float32 SignedInt32 True)),
      (OpcodeMiscI32TruncSatF32U, OpConversion (OperationITruncFromF Float32 SignedUint32 True)),
      (OpcodeMiscI32TruncSatF64S, OpConversion (OperationITruncFromF Float64 SignedInt32 True)),
      (OpcodeMiscI32TruncSatF64U, OpConversion (OperationITruncFromF Float64 SignedUint32 True)),
      (OpcodeMiscI64TruncSatF32S, OpConversion (OperationITruncFromF Float32 SignedInt64 True)),
      (OpcodeMiscI64TruncSatF32U, OpConversion (OperationITruncFromF Float32 SignedUint64 True)),
      (OpcodeMiscI64TruncSatF64S, OpConversion (OperationITruncFromF Float64 SignedInt64 True)),
      (OpcodeMiscI64TruncSatF64U, OpConversion (OperationITruncFromF Float64 SignedUint64 True))]"

text \<open>
  After the prefix \<^verbatim>\<open>OpcodeVecPrefix\<close>: the two vector additions, each a single
  \<^verbatim>\<open>c.emit\<close>.
\<close>

definition vecPlainOperations :: "(byte \<times> Operation) list" where
  "vecPlainOperations =
     [(OpcodeVecI32x4Add, OpVector OperationI32x4Add),
      (OpcodeVecI64x2Add, OpVector OperationI64x2Add)]"

subsection \<open>Errors and decoders\<close>

text \<open>
  \<open>andThen\<close> is Go's \<^verbatim>\<open>if err != nil { return err }\<close>: the first error or panic ends the
  computation. \<open>wrapError\<close> is \<^verbatim>\<open>fmt.Errorf("...: %w", err)\<close>; the fixed text of the
  message is kept and its formatted operands are left out. A panic is never wrapped.
\<close>

definition andThen :: "error + 'a \<Rightarrow> ('a \<Rightarrow> error + 'b) \<Rightarrow> error + 'b" where
  "andThen r f = (case r of Inl e \<Rightarrow> Inl e | Inr x \<Rightarrow> f x)"

fun wrapError :: "string \<Rightarrow> error \<Rightarrow> error" where
  "wrapError prefix (Error msg) = Error (prefix @ msg)"
| "wrapError prefix (Panic msg) = Panic msg"

definition wrapped :: "string \<Rightarrow> error + 'a \<Rightarrow> error + 'a" where
  "wrapped prefix r = (case r of Inl e \<Rightarrow> Inl (wrapError prefix e) | Inr x \<Rightarrow> Inr x)"

text \<open>
  Modelled from the spec: package \<^verbatim>\<open>internal/leb128\<close> and \<^verbatim>\<open>wasm.DecodeBlockType\<close> are
  outside the sources at hand. The spec fixes LEB128 for indices and lengths and the
  WebAssembly binary encoding for everything else: seven payload bits per byte, least
  significant group first, the top bit set on every byte but the last; a signed value is
  sign-extended from bit 6 of its last byte. Each decoder returns the value and the number
  of bytes it read.
\<close>

fun leb128_unsigned :: "nat \<Rightarrow> byte list \<Rightarrow> (int \<times> nat) option" where
  "leb128_unsigned 0 bs = None"
| "leb128_unsigned (Suc k) [] = None"
| "leb128_unsigned (Suc k) (b # bs) =
     (if b AND 0x80 = 0 then Some (uint b, 1)
      else (case leb128_unsigned k bs of
              None \<Rightarrow> None
            | Some (v, n) \<Rightarrow> Some (uint (b AND 0x7F) + 128 * v, n + 1)))"

fun leb128_signed :: "nat \<Rightarrow> byte list \<Rightarrow> (int \<times> nat) option" where
  "leb128_signed 0 bs = None"
| "leb128_signed (Suc k) [] = None"
| "leb128_signed (Suc k) (b # bs) =
     (if b AND 0x80 = 0 then Some (if b AND 0x40 = 0 then uint b else uint b - 128, 1)
      else (case leb128_signed k bs of
              None \<Rightarrow> None
            | Some (v, n) \<Rightarrow> Some (uint (b AND 0x7F) + 128 * v, n + 1)))"

text \<open>The decoders are called with a numeral for the byte limit.\<close>

lemma leb128_unsigned_numeral [simp]:
  "leb128_unsigned (numeral k) [] = None"
  "leb128_unsigned (numeral k) (b # bs) =
     (if b AND 0x80 = 0 then Some (uint b, 1)
      else (case leb128_unsigned (pred_numeral k) bs of
              None \<Rightarrow> None
            | Some (v, n) \<Rightarrow> Some (uint (b AND 0x7F) + 128 * v, n + 1)))"
  by (simp_all add: numeral_eq_Suc)

lemma leb128_signed_numeral [simp]:
  "leb128_signed (numeral k) [] = None"
  "leb128_signed (numeral k) (b # bs) =
     (if b AND 0x80 = 0 then Some (if b AND 0x40 = 0 then uint b else uint b - 128, 1)
      else (case leb128_signed (pred_numeral k) bs of
              None \<Rightarrow> None
            | Some (v, n) \<Rightarrow> Some (uint (b AND 0x7F) + 128 * v, n + 1)))"
  by (simp_all add: numeral_eq_Suc)

definition DecodeUint32 :: "byte list \<Rightarrow> error + (u32 \<times> nat)" where
  "DecodeUint32 bs =
     (case leb128_unsigned 5 bs of
        None \<Rightarrow> Inl (Error ''invalid LEB128'')
      | Some (v, n) \<Rightarrow>
          if v < 2 ^ 32 then Inr (word_of_int v, n) else Inl (Error ''overflows a 32-bit integer''))"

definition DecodeInt32 :: "byte list \<Rightarrow> error + (u32 \<times> nat)" where
  "DecodeInt32 bs =
     (case leb128_signed 5 bs of
        None \<Rightarrow> Inl (Error ''invalid LEB128'')
      | Some (v, n) \<Rightarrow>
          if - (2 ^ 31) \<le> v \<and> v < 2 ^ 31 then Inr (word_of_int v, n)
          else Inl (Error ''overflows a 32-bit integer''))"

definition DecodeInt64 :: "byte list \<Rightarrow> error + (u64 \<times> nat)" where
  "DecodeInt64 bs =
     (case leb128_signed 10 bs of
        None \<Rightarrow> Inl (Error ''invalid LEB128'')
      | Some (v, n) \<Rightarrow>
          if - (2 ^ 63) \<le> v \<and> v < 2 ^ 63 then Inr (word_of_int v, n)
          else Inl (Error ''overflows a 64-bit integer''))"

text \<open>
  Modelled from the spec: a block type is the byte \<^verbatim>\<open>0x40\<close> (no result), one value
  type, or, under the multi-value feature, the index of a function type of the module,
  all read as one signed LEB128 number of 33 bits. The counts \<^verbatim>\<open>ParamNumInUint64\<close> and
  \<^verbatim>\<open>ResultNumInUint64\<close> are in 64-bit slots, a 128-bit vector taking two.
\<close>

definition resultOnly :: "ValueType \<Rightarrow> int \<Rightarrow> FunctionType" where
  "resultOnly t n = \<lparr>Params = [], Results = [t], ParamNumInUint64 = 0, ResultNumInUint64 = n\<rparr>"

definition DecodeBlockType ::
  "FunctionType list \<Rightarrow> byte list \<Rightarrow> Features \<Rightarrow> error + (FunctionType \<times> nat)" where
  "DecodeBlockType ts bs features =
     (case leb128_signed 5 bs of
        None \<Rightarrow> Inl (Error ''decode int33'')
      | Some (raw, num) \<Rightarrow>
          if raw = - 64 then
            Inr (\<lparr>Params = [], Results = [], ParamNumInUint64 = 0, ResultNumInUint64 = 0\<rparr>, num)
          else if raw = - 1 then Inr (resultOnly ValueTypeI32 1, num)
          else if raw = - 2 then Inr (resultOnly ValueTypeI64 1, num)
          else if raw = - 3 then Inr (resultOnly ValueTypeF32 1, num)
          else if raw = - 4 then Inr (resultOnly ValueTypeF64 1, num)
          else if raw = - 5 then Inr (resultOnly ValueTypeV128 2, num)
          else if raw = - 16 then Inr (resultOnly ValueTypeFuncref 1, num)
          else if raw = - 17 then Inr (resultOnly ValueTypeExternref 1, num)
          else if \<not> Features_Get features FeatureMultiValue then
            Inl (Error ''block with function type return invalid as feature multi-value is disabled'')
          else if raw < 0 \<or> raw \<ge> int (length ts) then Inl (Error ''type index out of range'')
          else Inr (ts ! nat raw, num))"

text \<open>
  \<^verbatim>\<open>binary.LittleEndian.Uint32\<close> and \<^verbatim>\<open>Uint64\<close> of the Go library: the first four or
  eight bytes, least significant first; they panic on a shorter slice.
\<close>

definition LittleEndian_Uint32 :: "byte list \<Rightarrow> error + u32" where
  "LittleEndian_Uint32 bs =
     (if length bs < 4 then Inl (Panic ''index out of range'')
      else Inr (word_rcat (rev (take 4 bs))))"

definition LittleEndian_Uint64 :: "byte list \<Rightarrow> error + u64" where
  "LittleEndian_Uint64 bs =
     (if length bs < 8 then Inl (Panic ''index out of range'')
      else Inr (word_rcat (rev (take 8 bs))))"

text \<open>
  Modelled from the spec: \<^verbatim>\<open>wasmValueTypeToUnsignedType\<close> is declared outside the sources
  at hand. The value stack has 64-bit slots, a 128-bit value takes two and a reference is
  an opaque 64-bit value; this is also how \<^verbatim>\<open>emitDefaultValue\<close> below, which is in the
  sources, pushes the default of each type.
\<close>

fun wasmValueTypeToUnsignedType :: "ValueType \<Rightarrow> UnsignedType list" where
  "wasmValueTypeToUnsignedType ValueTypeI32 = [UnsignedTypeI32]"
| "wasmValueTypeToUnsignedType ValueTypeI64 = [UnsignedTypeI64]"
| "wasmValueTypeToUnsignedType ValueTypeExternref = [UnsignedTypeI64]"
| "wasmValueTypeToUnsignedType ValueTypeFuncref = [UnsignedTypeI64]"
| "wasmValueTypeToUnsignedType ValueTypeF32 = [UnsignedTypeF32]"
| "wasmValueTypeToUnsignedType ValueTypeF64 = [UnsignedTypeF64]"
| "wasmValueTypeToUnsignedType ValueTypeV128 = [UnsignedTypeI64, UnsignedTypeI64]"

subsection \<open>Control frames and the compiler state\<close>

datatype controlFrameKind =
    controlFrameKindBlockWithContinuationLabel
  | controlFrameKindBlockWithoutContinuationLabel
  | controlFrameKindFunction
  | controlFrameKindLoop
  | controlFrameKindIfWithElse
  | controlFrameKindIfWithoutElse

record controlFrame =
  frameID :: u32
  originalStackLenWithoutParam :: int
  blockType :: FunctionType
  kind :: controlFrameKind

definition ensureContinuation :: "controlFrame \<Rightarrow> controlFrame" where
  "ensureContinuation c =
     (if kind c = controlFrameKindBlockWithoutContinuationLabel
      then c\<lparr>kind := controlFrameKindBlockWithContinuationLabel\<rparr> else c)"

fun asBranchTarget_kind :: "u32 \<Rightarrow> controlFrameKind \<Rightarrow> BranchTarget" where
  "asBranchTarget_kind fid controlFrameKindBlockWithContinuationLabel =
     \<lparr>TargetLabel = Some \<lparr>FrameID = fid, Kind = LabelKindContinuation\<rparr>\<rparr>"
| "asBranchTarget_kind fid controlFrameKindBlockWithoutContinuationLabel =
     \<lparr>TargetLabel = Some \<lparr>FrameID = fid, Kind = LabelKindContinuation\<rparr>\<rparr>"
| "asBranchTarget_kind fid controlFrameKindLoop =
     \<lparr>TargetLabel = Some \<lparr>FrameID = fid, Kind = LabelKindHeader\<rparr>\<rparr>"
| "asBranchTarget_kind fid controlFrameKindFunction = \<lparr>TargetLabel = None\<rparr>"
| "asBranchTarget_kind fid controlFrameKindIfWithElse =
     \<lparr>TargetLabel = Some \<lparr>FrameID = fid, Kind = LabelKindContinuation\<rparr>\<rparr>"
| "asBranchTarget_kind fid controlFrameKindIfWithoutElse =
     \<lparr>TargetLabel = Some \<lparr>FrameID = fid, Kind = LabelKindContinuation\<rparr>\<rparr>"

definition asBranchTarget :: "controlFrame \<Rightarrow> BranchTarget" where
  "asBranchTarget c = asBranchTarget_kind (frameID c) (kind c)"

text \<open>The two methods of \<^verbatim>\<open>*Label\<close> that the compiler calls (declared with the
  operations): a target with that label, and such a target with nothing to drop.\<close>

definition Label_asBranchTarget :: "Label \<Rightarrow> BranchTarget" where
  "Label_asBranchTarget l = \<lparr>TargetLabel = Some l\<rparr>"

definition Label_asBranchTargetDrop :: "Label \<Rightarrow> BranchTargetDrop" where
  "Label_asBranchTargetDrop l = \<lparr>Target = Label_asBranchTarget l, ToDrop = None\<rparr>"

text \<open>
  \<^verbatim>\<open>CompilationResult\<close>: the fields that \<^verbatim>\<open>compile\<close> fills. \<^verbatim>\<open>LabelCallers\<close> is
  keyed by \<^verbatim>\<open>Label.String()\<close> in the source; the key here is the label itself, \<open>None\<close>
  being the nil label of a return.
\<close>

record CompilationResult =
  Operations :: "Operation list"
  LabelCallers :: "Label option \<Rightarrow> u32 option"
  NeedsAccessToDataInstances :: bool
  NeedsAccessToElementInstances :: bool

text \<open>
  The compiler. \<^verbatim>\<open>stack\<close> and \<^verbatim>\<open>controlFrames\<close> grow at the end of the list, as the Go
  slices do. \<^verbatim>\<open>pc\<close> is a \<^verbatim>\<open>uint64\<close> that only ever counts bytes of \<^verbatim>\<open>body\<close>.
\<close>

record compiler =
  enabledFeatures :: Features
  stack :: "UnsignedType list"
  currentID :: u32
  controlFrames :: "controlFrame list"
  unreachableState_on :: bool
  unreachableState_depth :: int
  pc :: nat
  result :: CompilationResult
  body :: "byte list"
  sig :: FunctionType
  localTypes :: "ValueType list"
  localIndexToStackHeight :: "u32 \<Rightarrow> int option"
  types :: "FunctionType list"
  funcs :: "u32 list"
  globals :: "GlobalType list"

text \<open>
  \<^verbatim>\<open>wasmOpcodeSignature\<close> (the operands an opcode pops and the results it pushes) is a
  method of the compiler declared in \<^verbatim>\<open>signature.go\<close>, outside the sources at hand. The
  functions that need it take it as the parameter \<open>sigs\<close>.
\<close>

record signature =
  sig_in :: "UnsignedType list"
  sig_out :: "UnsignedType list"

type_synonym signatures = "compiler \<Rightarrow> byte \<Rightarrow> u32 \<Rightarrow> error + signature"

text \<open>The methods of \<^verbatim>\<open>controlFrames\<close>. None checks a bound in the source, so an
  index outside the slice is Go's run-time panic.\<close>

definition functionFrame :: "compiler \<Rightarrow> error + controlFrame" where
  "functionFrame c =
     (case controlFrames c of [] \<Rightarrow> Inl (Panic ''index out of range'') | f # _ \<Rightarrow> Inr f)"

definition frames_index :: "compiler \<Rightarrow> nat \<Rightarrow> error + nat" where
  "frames_index c n =
     (if n < length (controlFrames c) then Inr (length (controlFrames c) - n - 1)
      else Inl (Panic ''index out of range''))"

definition frames_get :: "compiler \<Rightarrow> nat \<Rightarrow> error + controlFrame" where
  "frames_get c n = andThen (frames_index c n) (\<lambda>i. Inr (controlFrames c ! i))"

definition frames_top :: "compiler \<Rightarrow> error + controlFrame" where
  "frames_top c = frames_get c 0"

definition frames_empty :: "compiler \<Rightarrow> bool" where
  "frames_empty c = (length (controlFrames c) = 0)"

definition frames_pop :: "compiler \<Rightarrow> error + (controlFrame \<times> compiler)" where
  "frames_pop c =
     andThen (frames_top c) (\<lambda>frame. Inr (frame, c\<lparr>controlFrames := butlast (controlFrames c)\<rparr>))"

definition frames_push :: "controlFrame \<Rightarrow> compiler \<Rightarrow> compiler" where
  "frames_push frame c = c\<lparr>controlFrames := controlFrames c @ [frame]\<rparr>"

text \<open>A frame is a pointer in the source: a method that changes it changes the frame
  in the slice.\<close>

definition frames_update :: "nat \<Rightarrow> (controlFrame \<Rightarrow> controlFrame) \<Rightarrow> compiler \<Rightarrow> compiler" where
  "frames_update i f c = c\<lparr>controlFrames := (controlFrames c)[i := f (controlFrames c ! i)]\<rparr>"

definition markUnreachable :: "compiler \<Rightarrow> compiler" where
  "markUnreachable c = c\<lparr>unreachableState_on := True\<rparr>"

definition resetUnreachable :: "compiler \<Rightarrow> compiler" where
  "resetUnreachable c = c\<lparr>unreachableState_on := False\<rparr>"

definition nextID :: "compiler \<Rightarrow> u32 \<times> compiler" where
  "nextID c = (currentID c + 1, c\<lparr>currentID := currentID c + 1\<rparr>)"

definition stackPop :: "compiler \<Rightarrow> error + (UnsignedType \<times> compiler)" where
  "stackPop c =
     (if stack c = [] then Inl (Panic ''index out of range'')
      else Inr (last (stack c), c\<lparr>stack := butlast (stack c)\<rparr>))"

definition stackPush :: "UnsignedType list \<Rightarrow> compiler \<Rightarrow> compiler" where
  "stackPush ts c = c\<lparr>stack := stack c @ ts\<rparr>"

text \<open>
  \<^verbatim>\<open>c.stack = c.stack[:n]\<close>. Within the length this cuts the stack. Go panics on a
  negative bound and on one past the capacity; a bound between length and capacity would
  bring back cells popped earlier. The source relies on validation for the bound to be
  within the length, and the model reports any other bound as the panic.
\<close>

definition stackTruncate :: "int \<Rightarrow> compiler \<Rightarrow> error + compiler" where
  "stackTruncate n c =
     (if 0 \<le> n \<and> n \<le> int (length (stack c)) then Inr (c\<lparr>stack := take (nat n) (stack c)\<rparr>)
      else Inl (Panic ''slice bounds out of range''))"

definition pushValueTypes :: "ValueType list \<Rightarrow> compiler \<Rightarrow> compiler" where
  "pushValueTypes ts c = foldl (\<lambda>c t. stackPush (wasmValueTypeToUnsignedType t) c) c ts"

text \<open>\<^verbatim>\<open>c.result.LabelCallers[label.String()] += n\<close>; a missing key counts as zero.\<close>

definition addLabelCaller :: "Label option \<Rightarrow> u32 \<Rightarrow> compiler \<Rightarrow> compiler" where
  "addLabelCaller l n c =
     c\<lparr>result := (result c)\<lparr>LabelCallers :=
          (LabelCallers (result c))
            (l \<mapsto> (case LabelCallers (result c) l of None \<Rightarrow> 0 | Some k \<Rightarrow> k) + n)\<rparr>\<rparr>"

text \<open>\<^verbatim>\<open>emit\<close>: nothing in the unreachable state; otherwise every operation but a drop
  with a nil range is appended.\<close>

definition emit :: "Operation list \<Rightarrow> compiler \<Rightarrow> compiler" where
  "emit ops c =
     (if \<not> unreachableState_on c then
        c\<lparr>result := (result c)\<lparr>Operations :=
             Operations (result c) @ filter (\<lambda>op. op \<noteq> OpControl (OperationDrop None)) ops\<rparr>\<rparr>
      else c)"

fun emitDefaultValue :: "ValueType \<Rightarrow> compiler \<Rightarrow> compiler" where
  "emitDefaultValue ValueTypeI32 c =
     emit [OpConst (OperationConstI32 0)] (stackPush [UnsignedTypeI32] c)"
| "emitDefaultValue ValueTypeI64 c =
     emit [OpConst (OperationConstI64 0)] (stackPush [UnsignedTypeI64] c)"
| "emitDefaultValue ValueTypeExternref c =
     emit [OpConst (OperationConstI64 0)] (stackPush [UnsignedTypeI64] c)"
| "emitDefaultValue ValueTypeFuncref c =
     emit [OpConst (OperationConstI64 0)] (stackPush [UnsignedTypeI64] c)"
| "emitDefaultValue ValueTypeF32 c =
     emit [OpConst (OperationConstF32 0)] (stackPush [UnsignedTypeF32] c)"
| "emitDefaultValue ValueTypeF64 c =
     emit [OpConst (OperationConstF64 0)] (stackPush [UnsignedTypeF64] c)"
| "emitDefaultValue ValueTypeV128 c =
     emit [OpConst (OperationConstI64 0)] (stackPush [UnsignedTypeI64]
       (emit [OpConst (OperationConstI64 0)] (stackPush [UnsignedTypeI64] c)))"

text \<open>\<^verbatim>\<open>calcLocalIndexToStackHeight\<close>: parameters first, then locals; a 128-bit local
  takes two slots.\<close>

fun localHeights :: "ValueType list \<Rightarrow> u32 \<Rightarrow> int \<Rightarrow> (u32 \<Rightarrow> int option) \<Rightarrow> (u32 \<Rightarrow> int option)" where
  "localHeights [] index current m = m"
| "localHeights (lt # lts) index current m =
     localHeights lts (index + 1) (if lt = ValueTypeV128 then current + 2 else current + 1)
       (m(index \<mapsto> current))"

definition slotsOf :: "ValueType list \<Rightarrow> int" where
  "slotsOf ts = (\<Sum>t \<leftarrow> ts. if t = ValueTypeV128 then 2 else 1)"

definition calcLocalIndexToStackHeight :: "compiler \<Rightarrow> compiler" where
  "calcLocalIndexToStackHeight c =
     c\<lparr>localIndexToStackHeight :=
         localHeights (localTypes c) (word_of_nat (length (Params (sig c)))) (slotsOf (Params (sig c)))
           (localHeights (Params (sig c)) 0 0 Map.empty)\<rparr>"

definition localDepth :: "compiler \<Rightarrow> u32 \<Rightarrow> error + int" where
  "localDepth c index =
     (case localIndexToStackHeight c index of
        None \<Rightarrow> Inl (Panic ''BUG'')
      | Some height \<Rightarrow> Inr (int (length (stack c)) - 1 - height))"

definition localType :: "compiler \<Rightarrow> u32 \<Rightarrow> error + ValueType" where
  "localType c index =
     (let params = (word_of_nat (length (Params (sig c))) :: u32) in
      if index < params then
        (if unat index < length (Params (sig c)) then Inr (Params (sig c) ! unat index)
         else Inl (Panic ''index out of range''))
      else
        (if unat (index - params) < length (localTypes c)
         then Inr (localTypes c ! unat (index - params))
         else Inl (Panic ''index out of range'')))"

definition getFrameDropRange :: "compiler \<Rightarrow> controlFrame \<Rightarrow> bool \<Rightarrow> InclusiveRange option" where
  "getFrameDropRange c frame isEnd =
     (let start = (if \<not> isEnd \<and> kind frame = controlFrameKindLoop
                   then ParamNumInUint64 (blockType frame)
                   else ResultNumInUint64 (blockType frame));
          end' = (if kind frame = controlFrameKindFunction
                  then int (length (stack c)) - 1
                  else int (length (stack c)) - 1 - originalStackLenWithoutParam frame)
      in if start \<le> end' then Some \<lparr>Start = start, End = end'\<rparr> else None)"

text \<open>\<^verbatim>\<open>c.body[n:]\<close> and \<^verbatim>\<open>c.body[n]\<close>, with Go's bound checks.\<close>

definition body_from :: "compiler \<Rightarrow> nat \<Rightarrow> error + byte list" where
  "body_from c n =
     (if n \<le> length (body c) then Inr (drop n (body c))
      else Inl (Panic ''slice bounds out of range''))"

definition body_at :: "compiler \<Rightarrow> nat \<Rightarrow> error + byte" where
  "body_at c n =
     (if n < length (body c) then Inr (body c ! n) else Inl (Panic ''index out of range''))"

definition readMemoryImmediate :: "compiler \<Rightarrow> error + (MemoryImmediate \<times> compiler)" where
  "readMemoryImmediate c =
     andThen (body_from c (pc c + 1)) (\<lambda>r.
     andThen (wrapped ''reading alignment: '' (DecodeUint32 r)) (\<lambda>(alignment, num).
     andThen (wrapped ''reading offset: '' (DecodeUint32 (drop num r))) (\<lambda>(offset, num').
       Inr (\<lparr>Alignment = alignment, Offset = offset\<rparr>, c\<lparr>pc := pc c + num + num'\<rparr>))))"

subsection \<open>\<^verbatim>\<open>applyToStack\<close>\<close>

text \<open>The loop over \<^verbatim>\<open>s.in\<close>, last operand first, and the loop over \<^verbatim>\<open>s.out\<close>.\<close>

fun popInputs ::
  "UnsignedType list \<Rightarrow> UnsignedType option \<Rightarrow> compiler \<Rightarrow> error + (UnsignedType option \<times> compiler)" where
  "popInputs [] typeParam c = Inr (typeParam, c)"
| "popInputs (want # wants) typeParam c =
     andThen (stackPop c) (\<lambda>(actual, c).
       let (want', typeParam') =
             (if want = UnsignedTypeUnknown \<and> typeParam \<noteq> None then (the typeParam, typeParam)
              else if want = UnsignedTypeUnknown then (actual, Some actual)
              else (want, typeParam))
       in if want' \<noteq> actual then Inl (Error ''input signature mismatch'')
          else popInputs wants typeParam' c)"

fun pushOutputs :: "UnsignedType list \<Rightarrow> UnsignedType option \<Rightarrow> compiler \<Rightarrow> error + compiler" where
  "pushOutputs [] typeParam c = Inr c"
| "pushOutputs (target # targets) typeParam c =
     (if target = UnsignedTypeUnknown \<and> typeParam = None
      then Inl (Error ''cannot determine type of unknown result'')
      else if target = UnsignedTypeUnknown
      then pushOutputs targets typeParam (stackPush [the typeParam] c)
      else pushOutputs targets typeParam (stackPush [target] c))"

definition hasIndexImmediate :: "byte \<Rightarrow> bool" where
  "hasIndexImmediate opcode =
     (opcode = OpcodeCall \<or> opcode = OpcodeCallIndirect \<or> opcode = OpcodeLocalGet
      \<or> opcode = OpcodeLocalSet \<or> opcode = OpcodeLocalTee \<or> opcode = OpcodeGlobalGet
      \<or> opcode = OpcodeGlobalSet)"

definition applyToStack ::
  "signatures \<Rightarrow> byte \<Rightarrow> compiler \<Rightarrow> error + (u32 option \<times> compiler)" where
  "applyToStack sigs opcode c =
     andThen
       (if hasIndexImmediate opcode then
          andThen (body_from c (pc c + 1)) (\<lambda>bs.
          andThen (wrapped ''reading immediates: '' (DecodeUint32 bs)) (\<lambda>(v, num).
            Inr (v, Some v, c\<lparr>pc := pc c + num\<rparr>)))
        else Inr (0, None, c))
       (\<lambda>(index, ptr, c).
          if unreachableState_on c then Inr (ptr, c)
          else
            andThen (sigs c opcode index) (\<lambda>s.
            andThen (popInputs (rev (sig_in s)) None c) (\<lambda>(typeParam, c).
            andThen (pushOutputs (sig_out s) typeParam c) (\<lambda>c. Inr (ptr, c)))))"

subsection \<open>The cases of the switch in \<^verbatim>\<open>handleInstruction\<close>\<close>

text \<open>
  Each definition below is one \<^verbatim>\<open>case\<close> of the switch, named after its opcode, and
  returns the compiler as it stands when the case leaves the switch.
\<close>

definition case_OpcodeUnreachable :: "compiler \<Rightarrow> error + compiler" where
  "case_OpcodeUnreachable c = Inr (markUnreachable (emit [OpControl OperationUnreachable] c))"

definition decodeBlockType_at :: "string \<Rightarrow> compiler \<Rightarrow> error + (FunctionType \<times> compiler)" where
  "decodeBlockType_at msg c =
     andThen (body_from c (pc c + 1)) (\<lambda>bs.
     andThen (wrapped msg (DecodeBlockType (types c) bs (enabledFeatures c))) (\<lambda>(bt, num).
       Inr (bt, c\<lparr>pc := pc c + num\<rparr>)))"

definition enterUnreachableBlock :: "compiler \<Rightarrow> compiler" where
  "enterUnreachableBlock c = c\<lparr>unreachableState_depth := unreachableState_depth c + 1\<rparr>"

definition newFrame :: "controlFrameKind \<Rightarrow> FunctionType \<Rightarrow> compiler \<Rightarrow> controlFrame \<times> compiler" where
  "newFrame k bt c =
     (let (fid, c) = nextID c;
          frame = \<lparr>frameID = fid,
                   originalStackLenWithoutParam = int (length (stack c)) - ParamNumInUint64 bt,
                   blockType = bt, kind = k\<rparr>
      in (frame, frames_push frame c))"

definition case_OpcodeBlock :: "compiler \<Rightarrow> error + compiler" where
  "case_OpcodeBlock c =
     andThen (decodeBlockType_at ''reading block type for block instruction: '' c) (\<lambda>(bt, c).
       if unreachableState_on c then Inr (enterUnreachableBlock c)
       else Inr (snd (newFrame controlFrameKindBlockWithoutContinuationLabel bt c)))"

definition case_OpcodeLoop :: "compiler \<Rightarrow> error + compiler" where
  "case_OpcodeLoop c =
     andThen (decodeBlockType_at ''reading block type for loop instruction: '' c) (\<lambda>(bt, c).
       if unreachableState_on c then Inr (enterUnreachableBlock c)
       else
         (let (frame, c) = newFrame controlFrameKindLoop bt c;
              loopLabel = \<lparr>FrameID = frameID frame, Kind = LabelKindHeader\<rparr>;
              c = addLabelCaller (Some loopLabel) 1 c
          in Inr (emit [OpControl (OperationBr (Label_asBranchTarget loopLabel)),
                        OpControl (OperationLabel loopLabel)] c)))"

definition case_OpcodeIf :: "compiler \<Rightarrow> error + compiler" where
  "case_OpcodeIf c =
     andThen (decodeBlockType_at ''reading block type for if instruction: '' c) (\<lambda>(bt, c).
       if unreachableState_on c then Inr (enterUnreachableBlock c)
       else
         (let (frame, c) = newFrame controlFrameKindIfWithoutElse bt c;
              thenLabel = \<lparr>FrameID = frameID frame, Kind = LabelKindHeader\<rparr>;
              elseLabel = \<lparr>FrameID = frameID frame, Kind = LabelKindElse\<rparr>;
              c = addLabelCaller (Some thenLabel) 1 c;
              c = addLabelCaller (Some elseLabel) 1 c
          in Inr (emit [OpControl (OperationBrIf (Label_asBranchTargetDrop thenLabel)
                                                 (Label_asBranchTargetDrop elseLabel)),
                        OpControl (OperationLabel thenLabel)] c)))"

definition case_OpcodeElse :: "compiler \<Rightarrow> error + compiler" where
  "case_OpcodeElse c =
     andThen (frames_top c) (\<lambda>frame.
       if unreachableState_on c \<and> unreachableState_depth c > 0 then Inr c
       else if unreachableState_on c then
         andThen (stackTruncate (originalStackLenWithoutParam frame) c) (\<lambda>c.
           let c = frames_update (length (controlFrames c) - 1)
                     (\<lambda>f. f\<lparr>kind := controlFrameKindIfWithElse\<rparr>) c;
               c = pushValueTypes (Params (blockType frame)) c;
               elseLabel = \<lparr>FrameID = frameID frame, Kind = LabelKindElse\<rparr>;
               c = resetUnreachable c
           in Inr (emit [OpControl (OperationLabel elseLabel)] c))
       else
         (let c = frames_update (length (controlFrames c) - 1)
                    (\<lambda>f. f\<lparr>kind := controlFrameKindIfWithElse\<rparr>) c;
              frame = frame\<lparr>kind := controlFrameKindIfWithElse\<rparr>;
              dropOp = OpControl (OperationDrop (getFrameDropRange c frame False))
          in andThen (stackTruncate (originalStackLenWithoutParam frame) c) (\<lambda>c.
               let c = pushValueTypes (Params (blockType frame)) c;
                   elseLabel = \<lparr>FrameID = frameID frame, Kind = LabelKindElse\<rparr>;
                   continuationLabel = \<lparr>FrameID = frameID frame, Kind = LabelKindContinuation\<rparr>;
                   c = addLabelCaller (Some continuationLabel) 1 c
               in Inr (emit [dropOp,
                             OpControl (OperationBr (Label_asBranchTarget continuationLabel)),
                             OpControl (OperationLabel elseLabel)] c))))"

text \<open>
  \<^verbatim>\<open>case wasm.OpcodeEnd\<close> can leave the function with \<^verbatim>\<open>return nil\<close> (the function
  frame was popped in the unreachable state), which skips the \<^verbatim>\<open>c.pc++\<close> after the
  switch; every other way out of the switch is a \<^verbatim>\<open>break\<close>.
\<close>

datatype flow = Break compiler | Return compiler

definition endOfFrame :: "controlFrame \<Rightarrow> Operation \<Rightarrow> compiler \<Rightarrow> error + compiler" where
  "endOfFrame frame dropOp c =
     (let elseLabel = \<lparr>FrameID = frameID frame, Kind = LabelKindElse\<rparr>;
          continuationLabel = \<lparr>FrameID = frameID frame, Kind = LabelKindContinuation\<rparr>
      in case kind frame of
           controlFrameKindFunction \<Rightarrow>
             if \<not> frames_empty c then Inl (Panic ''bug: found more function control frames'')
             else Inr (emit [dropOp, OpControl (OperationBr \<lparr>TargetLabel = None\<rparr>)] c)
         | controlFrameKindIfWithoutElse \<Rightarrow>
             Inr (emit [dropOp,
                        OpControl (OperationBr (Label_asBranchTarget continuationLabel)),
                        OpControl (OperationLabel elseLabel),
                        OpControl (OperationBr (Label_asBranchTarget continuationLabel)),
                        OpControl (OperationLabel continuationLabel)]
                    (addLabelCaller (Some continuationLabel) 2 c))
         | controlFrameKindBlockWithContinuationLabel \<Rightarrow>
             Inr (emit [dropOp,
                        OpControl (OperationBr (Label_asBranchTarget continuationLabel)),
                        OpControl (OperationLabel continuationLabel)]
                    (addLabelCaller (Some continuationLabel) 1 c))
         | controlFrameKindIfWithElse \<Rightarrow>
             Inr (emit [dropOp,
                        OpControl (OperationBr (Label_asBranchTarget continuationLabel)),
                        OpControl (OperationLabel continuationLabel)]
                    (addLabelCaller (Some continuationLabel) 1 c))
         | controlFrameKindLoop \<Rightarrow> Inr (emit [dropOp] c)
         | controlFrameKindBlockWithoutContinuationLabel \<Rightarrow> Inr (emit [dropOp] c))"

definition case_OpcodeEnd :: "compiler \<Rightarrow> error + flow" where
  "case_OpcodeEnd c =
     (if unreachableState_on c \<and> unreachableState_depth c > 0 then
        Inr (Break (c\<lparr>unreachableState_depth := unreachableState_depth c - 1\<rparr>))
      else if unreachableState_on c then
        (let c = resetUnreachable c in
         andThen (frames_pop c) (\<lambda>(frame, c).
           if frames_empty c then Inr (Return c)
           else
             andThen (stackTruncate (originalStackLenWithoutParam frame) c) (\<lambda>c.
               let c = pushValueTypes (Results (blockType frame)) c;
                   continuationLabel = \<lparr>FrameID = frameID frame, Kind = LabelKindContinuation\<rparr>
               in if kind frame = controlFrameKindIfWithoutElse then
                    (let elseLabel = \<lparr>FrameID = frameID frame, Kind = LabelKindElse\<rparr>;
                         c = addLabelCaller (Some continuationLabel) 1 c
                     in Inr (Break (emit [OpControl (OperationLabel elseLabel),
                                          OpControl (OperationBr (Label_asBranchTarget continuationLabel)),
                                          OpControl (OperationLabel continuationLabel)] c)))
                  else Inr (Break (emit [OpControl (OperationLabel continuationLabel)] c)))))
      else
        andThen (frames_pop c) (\<lambda>(frame, c).
          let dropOp = OpControl (OperationDrop (getFrameDropRange c frame True)) in
          andThen (stackTruncate (originalStackLenWithoutParam frame) c) (\<lambda>c.
            let c = pushValueTypes (Results (blockType frame)) c in
            andThen (endOfFrame frame dropOp c) (\<lambda>c. Inr (Break c)))))"

text \<open>
  A branch looks its target frame up with \<^verbatim>\<open>c.controlFrames.get\<close>, marks it as needing
  a continuation, and reads the drop range and the target from it.
\<close>

definition branchTarget ::
  "nat \<Rightarrow> compiler \<Rightarrow> error + (InclusiveRange option \<times> BranchTarget \<times> compiler)" where
  "branchTarget n c =
     andThen (frames_index c n) (\<lambda>i.
       let c = frames_update i ensureContinuation c;
           targetFrame = controlFrames c ! i;
           drop' = getFrameDropRange c targetFrame False;
           target = asBranchTarget targetFrame;
           c = addLabelCaller (TargetLabel target) 1 c
       in Inr (drop', target, c))"

definition readTarget :: "string \<Rightarrow> compiler \<Rightarrow> error + (u32 \<times> compiler)" where
  "readTarget msg c =
     andThen (body_from c (pc c + 1)) (\<lambda>bs.
     andThen (wrapped msg (DecodeUint32 bs)) (\<lambda>(targetIndex, n).
       Inr (targetIndex, c\<lparr>pc := pc c + n\<rparr>)))"

definition case_OpcodeBr :: "compiler \<Rightarrow> error + compiler" where
  "case_OpcodeBr c =
     andThen (readTarget ''read the target for br_if: '' c) (\<lambda>(targetIndex, c).
     andThen (branchTarget (unat targetIndex) c) (\<lambda>(drop', target, c).
       Inr (markUnreachable
              (emit [OpControl (OperationDrop drop'), OpControl (OperationBr target)] c))))"

definition case_OpcodeBrIf :: "compiler \<Rightarrow> error + compiler" where
  "case_OpcodeBrIf c =
     andThen (readTarget ''read the target for br_if: '' c) (\<lambda>(targetIndex, c).
     andThen (branchTarget (unat targetIndex) c) (\<lambda>(drop', target, c).
       let (fid, c) = nextID c;
           continuationLabel = \<lparr>FrameID = fid, Kind = LabelKindHeader\<rparr>;
           c = addLabelCaller (Some continuationLabel) 1 c
       in Inr (emit [OpControl (OperationBrIf \<lparr>Target = target, ToDrop = drop'\<rparr>
                                              (Label_asBranchTargetDrop continuationLabel)),
                     OpControl (OperationLabel continuationLabel)] c)))"

text \<open>The loop of \<^verbatim>\<open>br_table\<close> over its targets; \<open>r\<close> is what is left in the reader.\<close>

fun brTableTargets ::
  "nat \<Rightarrow> byte list \<Rightarrow> BranchTargetDrop list \<Rightarrow> compiler
     \<Rightarrow> error + (byte list \<times> BranchTargetDrop list \<times> compiler)" where
  "brTableTargets 0 r targets c = Inr (r, targets, c)"
| "brTableTargets (Suc k) r targets c =
     andThen (wrapped ''error reading target in br_table: '' (DecodeUint32 r)) (\<lambda>(l, n).
       let c = c\<lparr>pc := pc c + n\<rparr> in
       andThen (branchTarget (unat l) c) (\<lambda>(drop', target, c).
         brTableTargets k (drop n r) (targets @ [\<lparr>Target = target, ToDrop = drop'\<rparr>]) c))"

definition case_OpcodeBrTable :: "compiler \<Rightarrow> error + compiler" where
  "case_OpcodeBrTable c =
     andThen (body_from c (pc c + 1)) (\<lambda>r.
     andThen (wrapped ''error reading number of targets in br_table: '' (DecodeUint32 r))
       (\<lambda>(numTargets, n).
          let c = c\<lparr>pc := pc c + n\<rparr> in
          andThen (brTableTargets (unat numTargets) (drop n r) [] c) (\<lambda>(r, targets, c).
          andThen (wrapped ''error reading default target of br_table: '' (DecodeUint32 r))
            (\<lambda>(l, n).
               let c = c\<lparr>pc := pc c + n\<rparr> in
               andThen (branchTarget (unat l) c) (\<lambda>(defaultTargetDrop, defaultTarget, c).
                 Inr (markUnreachable
                        (emit [OpControl (OperationBrTable targets
                                 \<lparr>Target = defaultTarget, ToDrop = defaultTargetDrop\<rparr>)] c)))))))"

definition case_OpcodeReturn :: "compiler \<Rightarrow> error + compiler" where
  "case_OpcodeReturn c =
     andThen (functionFrame c) (\<lambda>functionFrame.
       let dropOp = OpControl (OperationDrop (getFrameDropRange c functionFrame False)) in
       Inr (markUnreachable
              (emit [dropOp, OpControl (OperationBr (asBranchTarget functionFrame))] c)))"

definition withIndex :: "string \<Rightarrow> u32 option \<Rightarrow> (u32 \<Rightarrow> error + compiler) \<Rightarrow> error + compiler" where
  "withIndex msg index f = (case index of None \<Rightarrow> Inl (Error msg) | Some i \<Rightarrow> f i)"

definition case_OpcodeCall :: "u32 option \<Rightarrow> compiler \<Rightarrow> error + compiler" where
  "case_OpcodeCall index c =
     withIndex ''index does not exist for function call'' index (\<lambda>i.
       Inr (emit [OpControl (OperationCall i)] c))"

definition case_OpcodeCallIndirect :: "u32 option \<Rightarrow> compiler \<Rightarrow> error + compiler" where
  "case_OpcodeCallIndirect index c =
     withIndex ''index does not exist for indirect function call'' index (\<lambda>i.
       andThen (readTarget ''read target for br_table: '' c) (\<lambda>(tableIndex, c).
         Inr (emit [OpControl (OperationCallIndirect i tableIndex)] c)))"

definition dropTop :: Operation where
  "dropTop = OpControl (OperationDrop (Some \<lparr>Start = 0, End = 0\<rparr>))"

definition case_OpcodeDrop :: "compiler \<Rightarrow> error + compiler" where
  "case_OpcodeDrop c = Inr (emit [dropTop] c)"

definition case_OpcodeTypedSelect :: "compiler \<Rightarrow> error + compiler" where
  "case_OpcodeTypedSelect c = Inr (emit [OpControl OperationSelect] (c\<lparr>pc := pc c + 2\<rparr>))"

definition case_OpcodeLocalGet :: "u32 option \<Rightarrow> compiler \<Rightarrow> error + compiler" where
  "case_OpcodeLocalGet index c =
     withIndex ''index does not exist for local.get'' index (\<lambda>id.
       andThen (localDepth c id) (\<lambda>depth.
       andThen (localType c id) (\<lambda>t.
         if t = ValueTypeV128 then
           Inr (emit [OpControl (OperationPick (depth - 2)), OpControl (OperationPick (depth - 2))] c)
         else Inr (emit [OpControl (OperationPick (depth - 1))] c))))"

definition case_OpcodeLocalSet :: "u32 option \<Rightarrow> compiler \<Rightarrow> error + compiler" where
  "case_OpcodeLocalSet index c =
     withIndex ''index does not exist for local.set'' index (\<lambda>id.
       andThen (localDepth c id) (\<lambda>depth.
       andThen (localType c id) (\<lambda>t.
         if t = ValueTypeV128 then
           Inr (emit [OpControl (OperationSwap (depth + 1)), dropTop,
                      OpControl (OperationSwap (depth + 1)), dropTop] c)
         else Inr (emit [OpControl (OperationSwap (depth + 1)), dropTop] c))))"

definition case_OpcodeLocalTee :: "u32 option \<Rightarrow> compiler \<Rightarrow> error + compiler" where
  "case_OpcodeLocalTee index c =
     withIndex ''index does not exist for local.tee'' index (\<lambda>id.
       andThen (localDepth c id) (\<lambda>depth.
       andThen (localType c id) (\<lambda>t.
         if t = ValueTypeV128 then
           Inr (emit [OpControl (OperationPick 1), OpControl (OperationPick 1),
                      OpControl (OperationSwap (depth + 1)), dropTop,
                      OpControl (OperationSwap (depth + 1)), dropTop] c)
         else Inr (emit [OpControl (OperationPick 0),
                         OpControl (OperationSwap (depth + 1)), dropTop] c))))"

definition case_OpcodeGlobalGet :: "u32 option \<Rightarrow> compiler \<Rightarrow> error + compiler" where
  "case_OpcodeGlobalGet index c =
     withIndex ''index does not exist for global.get'' index (\<lambda>i.
       Inr (emit [OpControl (OperationGlobalGet i)] c))"

definition case_OpcodeGlobalSet :: "u32 option \<Rightarrow> compiler \<Rightarrow> error + compiler" where
  "case_OpcodeGlobalSet index c =
     withIndex ''index does not exist for global.set'' index (\<lambda>i.
       Inr (emit [OpControl (OperationGlobalSet i)] c))"

text \<open>A load or store: \<open>mk\<close> is the row of \<open>memoryOperations\<close> for the opcode.\<close>

definition case_memory :: "(MemoryImmediate \<Rightarrow> Operation) \<Rightarrow> compiler \<Rightarrow> error + compiler" where
  "case_memory mk c = andThen (readMemoryImmediate c) (\<lambda>(imm, c). Inr (emit [mk imm] c))"

definition case_OpcodeMemorySize :: "compiler \<Rightarrow> error + compiler" where
  "case_OpcodeMemorySize c = Inr (emit [OpMemory OperationMemorySize] (c\<lparr>pc := pc c + 1\<rparr>))"

definition case_OpcodeMemoryGrow :: "compiler \<Rightarrow> error + compiler" where
  "case_OpcodeMemoryGrow c = Inr (emit [OpMemory OperationMemoryGrow] (c\<lparr>pc := pc c + 1\<rparr>))"

definition case_OpcodeI32Const :: "compiler \<Rightarrow> error + compiler" where
  "case_OpcodeI32Const c =
     andThen (body_from c (pc c + 1)) (\<lambda>bs.
     andThen (wrapped ''reading i32.const value: '' (DecodeInt32 bs)) (\<lambda>(val, num).
       Inr (emit [OpConst (OperationConstI32 val)] (c\<lparr>pc := pc c + num\<rparr>))))"

definition case_OpcodeI64Const :: "compiler \<Rightarrow> error + compiler" where
  "case_OpcodeI64Const c =
     andThen (body_from c (pc c + 1)) (\<lambda>bs.
     andThen (wrapped ''reading i64.const value: '' (DecodeInt64 bs)) (\<lambda>(val, num).
       Inr (emit [OpConst (OperationConstI64 val)] (c\<lparr>pc := pc c + num\<rparr>))))"

definition case_OpcodeF32Const :: "compiler \<Rightarrow> error + compiler" where
  "case_OpcodeF32Const c =
     andThen (body_from c (pc c + 1)) (\<lambda>bs.
     andThen (LittleEndian_Uint32 bs) (\<lambda>v.
       Inr (emit [OpConst (OperationConstF32 v)] (c\<lparr>pc := pc c + 4\<rparr>))))"

definition case_OpcodeF64Const :: "compiler \<Rightarrow> error + compiler" where
  "case_OpcodeF64Const c =
     andThen (body_from c (pc c + 1)) (\<lambda>bs.
     andThen (LittleEndian_Uint64 bs) (\<lambda>v.
       Inr (emit [OpConst (OperationConstF64 v)] (c\<lparr>pc := pc c + 8\<rparr>))))"

text \<open>
  \<^verbatim>\<open>ref.func\<close>, \<^verbatim>\<open>table.get\<close> and \<^verbatim>\<open>table.set\<close> step over the opcode first
  (\<^verbatim>\<open>c.pc++\<close>), decode at \<^verbatim>\<open>c.body[c.pc:]\<close> and add \<^verbatim>\<open>num - 1\<close>.
\<close>

definition indexAfterOpcode :: "string \<Rightarrow> compiler \<Rightarrow> error + (u32 \<times> compiler)" where
  "indexAfterOpcode msg c =
     (let c = c\<lparr>pc := pc c + 1\<rparr> in
      andThen (body_from c (pc c)) (\<lambda>bs.
      andThen (wrapped msg (DecodeUint32 bs)) (\<lambda>(index, num).
        Inr (index, c\<lparr>pc := pc c + num - 1\<rparr>))))"

definition case_OpcodeRefFunc :: "compiler \<Rightarrow> error + compiler" where
  "case_OpcodeRefFunc c =
     andThen (indexAfterOpcode ''failed to read function index for ref.func: '' c) (\<lambda>(index, c).
       Inr (emit [OpTable (OperationRefFunc index)] c))"

definition case_OpcodeRefNull :: "compiler \<Rightarrow> error + compiler" where
  "case_OpcodeRefNull c = Inr (emit [OpConst (OperationConstI64 0)] (c\<lparr>pc := pc c + 1\<rparr>))"

definition case_OpcodeTableGet :: "compiler \<Rightarrow> error + compiler" where
  "case_OpcodeTableGet c =
     andThen (indexAfterOpcode ''failed to read function index for table.get: '' c) (\<lambda>(tableIndex, c).
       Inr (emit [OpTable (OperationTableGet tableIndex)] c))"

definition case_OpcodeTableSet :: "compiler \<Rightarrow> error + compiler" where
  "case_OpcodeTableSet c =
     andThen (indexAfterOpcode ''failed to read function index for table.set: '' c) (\<lambda>(tableIndex, c).
       Inr (emit [OpTable (OperationTableSet tableIndex)] c))"

definition needsData :: "compiler \<Rightarrow> compiler" where
  "needsData c = c\<lparr>result := (result c)\<lparr>NeedsAccessToDataInstances := True\<rparr>\<rparr>"

definition needsElement :: "compiler \<Rightarrow> compiler" where
  "needsElement c = c\<lparr>result := (result c)\<lparr>NeedsAccessToElementInstances := True\<rparr>\<rparr>"

definition readIndex :: "compiler \<Rightarrow> error + (u32 \<times> compiler)" where
  "readIndex c = readTarget ''reading i32.const value: '' c"

definition case_OpcodeMiscPrefix :: "compiler \<Rightarrow> error + compiler" where
  "case_OpcodeMiscPrefix c0 =
     (let c = c0\<lparr>pc := pc c0 + 1\<rparr> in
      andThen (body_at c (pc c)) (\<lambda>miscOp.
        case map_of miscTruncSatOperations miscOp of
          Some operation \<Rightarrow> Inr (emit [operation] c)
        | None \<Rightarrow>
            if miscOp = OpcodeMiscMemoryInit then
              andThen (readIndex c) (\<lambda>(dataIndex, c).
                Inr (needsData (emit [OpMemory (OperationMemoryInit dataIndex)]
                                  (c\<lparr>pc := pc c + 1\<rparr>))))
            else if miscOp = OpcodeMiscDataDrop then
              andThen (readIndex c) (\<lambda>(dataIndex, c).
                Inr (needsData (emit [OpMemory (OperationDataDrop dataIndex)] c)))
            else if miscOp = OpcodeMiscMemoryCopy then
              Inr (emit [OpMemory OperationMemoryCopy] (c\<lparr>pc := pc c + 2\<rparr>))
            else if miscOp = OpcodeMiscMemoryFill then
              Inr (emit [OpMemory OperationMemoryFill] (c\<lparr>pc := pc c + 1\<rparr>))
            else if miscOp = OpcodeMiscTableInit then
              andThen (readIndex c) (\<lambda>(elemIndex, c).
              andThen (readIndex c) (\<lambda>(tableIndex, c).
                Inr (needsElement (emit [OpTable (OperationTableInit elemIndex tableIndex)] c))))
            else if miscOp = OpcodeMiscElemDrop then
              andThen (readIndex c) (\<lambda>(elemIndex, c).
                Inr (needsElement (emit [OpTable (OperationElemDrop elemIndex)] c)))
            else if miscOp = OpcodeMiscTableCopy then
              andThen (readIndex c) (\<lambda>(dst, c).
              andThen (readIndex c) (\<lambda>(src, c).
                Inr (needsElement (emit [OpTable (OperationTableCopy src dst)] c))))
            else if miscOp = OpcodeMiscTableGrow then
              andThen (readIndex c) (\<lambda>(tableIndex, c).
                Inr (needsElement (emit [OpTable (OperationTableGrow tableIndex)] c)))
            else if miscOp = OpcodeMiscTableSize then
              andThen (readIndex c) (\<lambda>(tableIndex, c).
                Inr (needsElement (emit [OpTable (OperationTableSize tableIndex)] c)))
            else if miscOp = OpcodeMiscTableFill then
              andThen (readIndex c) (\<lambda>(tableIndex, c).
                Inr (needsElement (emit [OpTable (OperationTableFill tableIndex)] c)))
            else Inl (Error ''unsupported misc instruction in wazeroir'')))"

text \<open>
  \<^verbatim>\<open>v128.const\<close> reads \<^verbatim>\<open>c.body[c.pc : c.pc+8]\<close> twice. Go's bound for the upper index
  of a slice expression is the capacity; the model takes the length of the body.
\<close>

definition case_OpcodeVecPrefix :: "compiler \<Rightarrow> error + compiler" where
  "case_OpcodeVecPrefix c0 =
     (let c = c0\<lparr>pc := pc c0 + 1\<rparr> in
      andThen (body_at c (pc c)) (\<lambda>vecOp.
        if vecOp = OpcodeVecV128Const then
          (let c = c\<lparr>pc := pc c + 1\<rparr> in
           andThen (body_from c (pc c)) (\<lambda>bs.
           andThen (LittleEndian_Uint64 bs) (\<lambda>lo.
             let c = c\<lparr>pc := pc c + 8\<rparr> in
             andThen (body_from c (pc c)) (\<lambda>bs.
             andThen (LittleEndian_Uint64 bs) (\<lambda>hi.
               Inr ((emit [OpConst (OperationConstV128 lo hi)] c)\<lparr>pc := pc c + 7\<rparr>))))))
        else
          (case map_of vecPlainOperations vecOp of
             Some operation \<Rightarrow> Inr (emit [operation] c)
           | None \<Rightarrow> Inl (Error ''unsupported vector instruction in wazeroir''))))"

subsection \<open>\<^verbatim>\<open>handleInstruction\<close> and \<^verbatim>\<open>compile\<close>\<close>

definition break :: "error + compiler \<Rightarrow> error + flow" where
  "break r = andThen r (\<lambda>c. Inr (Break c))"

definition operatorSwitch :: "byte \<Rightarrow> u32 option \<Rightarrow> compiler \<Rightarrow> error + flow" where
  "operatorSwitch op index c =
     (if op = OpcodeUnreachable then break (case_OpcodeUnreachable c)
      else if op = OpcodeNop then break (Inr c)
      else if op = OpcodeBlock then break (case_OpcodeBlock c)
      else if op = OpcodeLoop then break (case_OpcodeLoop c)
      else if op = OpcodeIf then break (case_OpcodeIf c)
      else if op = OpcodeElse then break (case_OpcodeElse c)
      else if op = OpcodeEnd then case_OpcodeEnd c
      else if op = OpcodeBr then break (case_OpcodeBr c)
      else if op = OpcodeBrIf then break (case_OpcodeBrIf c)
      else if op = OpcodeBrTable then break (case_OpcodeBrTable c)
      else if op = OpcodeReturn then break (case_OpcodeReturn c)
      else if op = OpcodeCall then break (case_OpcodeCall index c)
      else if op = OpcodeCallIndirect then break (case_OpcodeCallIndirect index c)
      else if op = OpcodeDrop then break (case_OpcodeDrop c)
      else if op = OpcodeTypedSelect then break (case_OpcodeTypedSelect c)
      else if op = OpcodeLocalGet then break (case_OpcodeLocalGet index c)
      else if op = OpcodeLocalSet then break (case_OpcodeLocalSet index c)
      else if op = OpcodeLocalTee then break (case_OpcodeLocalTee index c)
      else if op = OpcodeGlobalGet then break (case_OpcodeGlobalGet index c)
      else if op = OpcodeGlobalSet then break (case_OpcodeGlobalSet index c)
      else if op = OpcodeMemorySize then break (case_OpcodeMemorySize c)
      else if op = OpcodeMemoryGrow then break (case_OpcodeMemoryGrow c)
      else if op = OpcodeI32Const then break (case_OpcodeI32Const c)
      else if op = OpcodeI64Const then break (case_OpcodeI64Const c)
      else if op = OpcodeF32Const then break (case_OpcodeF32Const c)
      else if op = OpcodeF64Const then break (case_OpcodeF64Const c)
      else if op = OpcodeRefFunc then break (case_OpcodeRefFunc c)
      else if op = OpcodeRefNull then break (case_OpcodeRefNull c)
      else if op = OpcodeTableGet then break (case_OpcodeTableGet c)
      else if op = OpcodeTableSet then break (case_OpcodeTableSet c)
      else if op = OpcodeMiscPrefix then break (case_OpcodeMiscPrefix c)
      else if op = OpcodeVecPrefix then break (case_OpcodeVecPrefix c)
      else
        (case map_of memoryOperations op of
           Some mk \<Rightarrow> break (case_memory mk c)
         | None \<Rightarrow>
             (case map_of plainOperations op of
                Some operation \<Rightarrow> break (Inr (emit [operation] c))
              | None \<Rightarrow> Inl (Error ''unsupported instruction in wazeroir''))))"

definition handleInstruction :: "signatures \<Rightarrow> compiler \<Rightarrow> error + compiler" where
  "handleInstruction sigs c =
     andThen (body_at c (pc c)) (\<lambda>op.
     andThen (wrapped ''apply stack failed: '' (applyToStack sigs op c)) (\<lambda>(index, c).
     andThen (operatorSwitch op index c) (\<lambda>fl.
       case fl of
         Break c \<Rightarrow> Inr (c\<lparr>pc := pc c + 1\<rparr>)
       | Return c \<Rightarrow> Inr c)))"

text \<open>
  The loop of \<^verbatim>\<open>compile\<close>: \<^verbatim>\<open>for !c.controlFrames.empty() && c.pc < len(c.body)\<close>.
  Nothing in its text bounds the number of rounds, so the loop is a partial function:
  \<open>None\<close> is a run that never ends.
\<close>

partial_function (option) compile_loop :: "signatures \<Rightarrow> compiler \<Rightarrow> (error + compiler) option" where
  "compile_loop sigs c =
     (if \<not> frames_empty c \<and> pc c < length (body c) then
        (case handleInstruction sigs c of
           Inl e \<Rightarrow> Some (Inl (wrapError ''handling instruction: '' e))
         | Inr c' \<Rightarrow> compile_loop sigs c')
      else Some (Inr c))"

declare compile_loop.simps [code]

definition compile_init ::
  "Features \<Rightarrow> FunctionType \<Rightarrow> byte list \<Rightarrow> ValueType list \<Rightarrow> FunctionType list \<Rightarrow> u32 list
     \<Rightarrow> GlobalType list \<Rightarrow> compiler" where
  "compile_init features sg bdy lts ts functions gs =
     (let c = \<lparr>enabledFeatures = features, stack = [], currentID = 0, controlFrames = [],
               unreachableState_on = False, unreachableState_depth = 0, pc = 0,
               result = \<lparr>Operations = [], LabelCallers = Map.empty,
                         NeedsAccessToDataInstances = False,
                         NeedsAccessToElementInstances = False\<rparr>,
               body = bdy, sig = sg, localTypes = lts, localIndexToStackHeight = Map.empty,
               types = ts, funcs = functions, globals = gs\<rparr>;
          c = calcLocalIndexToStackHeight c;
          c = pushValueTypes (Params sg) c;
          c = foldl (\<lambda>c t. emitDefaultValue t c) c lts;
          (fid, c) = nextID c
      in frames_push \<lparr>frameID = fid, originalStackLenWithoutParam = 0, blockType = sg,
                      kind = controlFrameKindFunction\<rparr> c)"

definition compile ::
  "signatures \<Rightarrow> Features \<Rightarrow> FunctionType \<Rightarrow> byte list \<Rightarrow> ValueType list \<Rightarrow> FunctionType list
     \<Rightarrow> u32 list \<Rightarrow> GlobalType list \<Rightarrow> (error + CompilationResult) option" where
  "compile sigs features sg bdy lts ts functions gs =
     (case compile_loop sigs (compile_init features sg bdy lts ts functions gs) of
        None \<Rightarrow> None
      | Some (Inl e) \<Rightarrow> Some (Inl e)
      | Some (Inr c) \<Rightarrow> Some (Inr (result c)))"

subsection \<open>Concrete inputs for the lowering pass\<close>

text \<open>
  Modelled from the spec: the rows of \<^verbatim>\<open>wasmOpcodeSignature\<close> for the opcodes that the
  concrete runs of this theory execute in the reachable state. The spec has each opcode
  pop its declared operands and push its declared results: the structured and branch
  instructions touch nothing but the \<^verbatim>\<open>i32\<close> condition of \<^verbatim>\<open>if\<close>, \<^verbatim>\<open>br_if\<close> and
  \<^verbatim>\<open>br_table\<close>; \<^verbatim>\<open>i32.const\<close> pushes one \<^verbatim>\<open>i32\<close>; the binary \<^verbatim>\<open>i32\<close> operators pop
  two and push one. Any other opcode is refused, so that no run below depends on a row
  that is not written here.
\<close>

definition signature_None_None :: signature where
  "signature_None_None = \<lparr>sig_in = [], sig_out = []\<rparr>"

definition signature_I32_None :: signature where
  "signature_I32_None = \<lparr>sig_in = [UnsignedTypeI32], sig_out = []\<rparr>"

definition signature_None_I32 :: signature where
  "signature_None_I32 = \<lparr>sig_in = [], sig_out = [UnsignedTypeI32]\<rparr>"

definition signature_I32I32_I32 :: signature where
  "signature_I32I32_I32 =
     \<lparr>sig_in = [UnsignedTypeI32, UnsignedTypeI32], sig_out = [UnsignedTypeI32]\<rparr>"

definition exampleSignatures :: signatures where
  "exampleSignatures c op index =
     (if op = OpcodeUnreachable \<or> op = OpcodeNop \<or> op = OpcodeBlock \<or> op = OpcodeLoop
         \<or> op = OpcodeElse \<or> op = OpcodeEnd \<or> op = OpcodeBr \<or> op = OpcodeReturn
      then Inr signature_None_None
      else if op = OpcodeIf \<or> op = OpcodeBrIf \<or> op = OpcodeBrTable then Inr signature_I32_None
      else if op = OpcodeI32Const then Inr signature_None_I32
      else if op = OpcodeI32And \<or> op = OpcodeI32Or \<or> op = OpcodeI32Xor \<or> op = OpcodeI32Add
      then Inr signature_I32I32_I32
      else Inl (Error ''signature not given''))"

text \<open>The function type \<^verbatim>\<open>() -> ()\<close> and a module that declares nothing else.\<close>

definition noneToNone :: FunctionType where
  "noneToNone = \<lparr>Params = [], Results = [], ParamNumInUint64 = 0, ResultNumInUint64 = 0\<rparr>"

definition compileBody :: "byte list \<Rightarrow> (error + CompilationResult) option" where
  "compileBody bdy = compile exampleSignatures Features20191205 noneToNone bdy [] [noneToNone] [0] []"

text \<open>
  \<^verbatim>\<open>(func unreachable (block (br 1)))\<close>: after \<^verbatim>\<open>unreachable\<close> comes a block whose only
  instruction branches to the function's own label. The body is valid WebAssembly.
\<close>

definition body_br_in_dead_block :: "byte list" where
  "body_br_in_dead_block =
     [OpcodeUnreachable, OpcodeBlock, 0x40, OpcodeBr, 0x01, OpcodeEnd, OpcodeEnd]"

text \<open>\<^verbatim>\<open>(func (i32.const 1) (i32.const 2) (i32.xor) ...)\<close>, up to the operator.\<close>

definition body_i32_xor :: "byte list" where
  "body_i32_xor = [OpcodeI32Const, 0x01, OpcodeI32Const, 0x02, OpcodeI32Xor]"

definition body_i32_and :: "byte list" where
  "body_i32_and = [OpcodeI32Const, 0x01, OpcodeI32Const, 0x02, OpcodeI32And]"

definition body_i32_or :: "byte list" where
  "body_i32_or = [OpcodeI32Const, 0x01, OpcodeI32Const, 0x02, OpcodeI32Or]"

text \<open>The same with \<^verbatim>\<open>br 0\<close>, which names the dead block itself.\<close>

definition body_br0_in_dead_block :: "byte list" where
  "body_br0_in_dead_block =
     [OpcodeUnreachable, OpcodeBlock, 0x40, OpcodeBr, 0x00, OpcodeEnd, OpcodeEnd]"

definition emitted :: "(error + CompilationResult) option \<Rightarrow> (error + Operation list) option" where
  "emitted r = map_option (map_sum id Operations) r"

section \<open>The WASI host functions \<^verbatim>\<open>args_get\<close> and \<^verbatim>\<open>fd_read\<close>\<close>

text \<open>
  Modelled from the spec: the host functions of \<^verbatim>\<open>wasi_snapshot_preview1\<close> and the memory
  instance they write to are not in the sources at hand; only their tests are. The spec
  (host ABI) says: every pointer is a 32-bit offset into the current memory, the host
  bounds-checks every \<^verbatim>\<open>offset+length\<close> against the memory length and returns
  \<^verbatim>\<open>EFAULT\<close> on failure; strings are NUL-terminated; the system context holds argv and the
  file-descriptor table; every function returns a 32-bit errno of the standard WASI
  enumeration with \<^verbatim>\<open>ESUCCESS = 0\<close>; and, for \<^verbatim>\<open>fd_read\<close> returning 0, the number written
  to the result pointer is the minimum of the bytes left in the file and the sum of the
  lengths of the iovecs, that many bytes being consumed from the open file.
  Multi-byte values in memory are little-endian, as WebAssembly has them.
\<close>

datatype Errno =
    ErrnoSuccess | ErrnoBadf | ErrnoFault | ErrnoInval | ErrnoIo | ErrnoNametoolong
  | ErrnoNoent | ErrnoNosys

fun Errno_code :: "Errno \<Rightarrow> u32" where
  "Errno_code ErrnoSuccess = 0"
| "Errno_code ErrnoBadf = 8"
| "Errno_code ErrnoFault = 21"
| "Errno_code ErrnoInval = 28"
| "Errno_code ErrnoIo = 29"
| "Errno_code ErrnoNametoolong = 37"
| "Errno_code ErrnoNoent = 44"
| "Errno_code ErrnoNosys = 52"

text \<open>A memory instance: the cells of its buffer and the buffer's length in bytes.\<close>

record MemoryInstance =
  Buffer :: "nat \<Rightarrow> byte"
  Buffer_len :: nat

definition hasSize :: "MemoryInstance \<Rightarrow> nat \<Rightarrow> nat \<Rightarrow> bool" where
  "hasSize m offset' byteCount = (offset' + byteCount \<le> Buffer_len m)"

fun write_bytes :: "(nat \<Rightarrow> byte) \<Rightarrow> nat \<Rightarrow> byte list \<Rightarrow> (nat \<Rightarrow> byte)" where
  "write_bytes b off [] = b"
| "write_bytes b off (x # xs) = write_bytes (b(off := x)) (off + 1) xs"

definition Memory_Read :: "MemoryInstance \<Rightarrow> nat \<Rightarrow> nat \<Rightarrow> byte list option" where
  "Memory_Read m off n =
     (if hasSize m off n then Some (map (Buffer m) [off ..< off + n]) else None)"

definition Memory_Write :: "MemoryInstance \<Rightarrow> nat \<Rightarrow> byte list \<Rightarrow> MemoryInstance option" where
  "Memory_Write m off bs =
     (if hasSize m off (length bs) then Some (m\<lparr>Buffer := write_bytes (Buffer m) off bs\<rparr>)
      else None)"

definition le_bytes32 :: "u32 \<Rightarrow> byte list" where
  "le_bytes32 v = [ucast v, ucast (drop_bit 8 v), ucast (drop_bit 16 v), ucast (drop_bit 24 v)]"

definition le_uint32 :: "byte \<Rightarrow> byte \<Rightarrow> byte \<Rightarrow> byte \<Rightarrow> u32" where
  "le_uint32 b0 b1 b2 b3 =
     ucast b0 OR push_bit 8 (ucast b1) OR push_bit 16 (ucast b2) OR push_bit 24 (ucast b3)"

definition Memory_ReadUint32Le :: "MemoryInstance \<Rightarrow> nat \<Rightarrow> u32 option" where
  "Memory_ReadUint32Le m off =
     (if hasSize m off 4
      then Some (le_uint32 (Buffer m off) (Buffer m (off + 1)) (Buffer m (off + 2))
                   (Buffer m (off + 3)))
      else None)"

definition Memory_WriteUint32Le :: "MemoryInstance \<Rightarrow> nat \<Rightarrow> u32 \<Rightarrow> MemoryInstance option" where
  "Memory_WriteUint32Le m off v = Memory_Write m off (le_bytes32 v)"

definition string_bytes :: "string \<Rightarrow> byte list" where
  "string_bytes s = map of_char s"

text \<open>
  \<^verbatim>\<open>args_get(argv, argv_buf)\<close>: the arguments go to \<^verbatim>\<open>argv_buf\<close> one after the other,
  each followed by NUL, and the offset of each goes to the next four bytes at \<^verbatim>\<open>argv\<close>.
  Both regions are bounds-checked before anything is written.
\<close>

fun writeArgs :: "string list \<Rightarrow> nat \<Rightarrow> nat \<Rightarrow> (nat \<Rightarrow> byte) \<Rightarrow> (nat \<Rightarrow> byte)" where
  "writeArgs [] argv argvBuf b = b"
| "writeArgs (a # as) argv argvBuf b =
     writeArgs as (argv + 4) (argvBuf + length a + 1)
       (write_bytes (write_bytes b argv (le_bytes32 (word_of_nat argvBuf)))
          argvBuf (string_bytes a @ [0]))"

definition argsSize :: "string list \<Rightarrow> nat" where
  "argsSize as = (\<Sum>a \<leftarrow> as. length a + 1)"

definition ArgsGet :: "SysContext \<Rightarrow> MemoryInstance \<Rightarrow> u32 \<Rightarrow> u32 \<Rightarrow> Errno \<times> MemoryInstance" where
  "ArgsGet sys m argv argvBuf =
     (if hasSize m (unat argv) (4 * length (sys_args sys))
         \<and> hasSize m (unat argvBuf) (argsSize (sys_args sys))
      then (ErrnoSuccess,
            m\<lparr>Buffer := writeArgs (sys_args sys) (unat argv) (unat argvBuf) (Buffer m)\<rparr>)
      else (ErrnoFault, m))"

text \<open>
  \<^verbatim>\<open>fd_read(fd, iovs, iovs_count, result_size)\<close>: each iovec is two little-endian
  \<^verbatim>\<open>u32\<close>, the offset and the length of a buffer in memory. The buffers are filled in
  order from the open file until the file gives less than asked; the total goes to
  \<^verbatim>\<open>result_size\<close>.
\<close>

fun readIovs ::
  "nat \<Rightarrow> nat \<Rightarrow> MemoryInstance \<Rightarrow> fs_File \<Rightarrow> nat \<Rightarrow> Errno + (MemoryInstance \<times> fs_File \<times> nat)" where
  "readIovs 0 iovPtr m f nread = Inr (m, f, nread)"
| "readIovs (Suc k) iovPtr m f nread =
     (case Memory_ReadUint32Le m iovPtr of
        None \<Rightarrow> Inl ErrnoFault
      | Some offset' \<Rightarrow>
          (case Memory_ReadUint32Le m (iovPtr + 4) of
             None \<Rightarrow> Inl ErrnoFault
           | Some l \<Rightarrow>
               (let chunk = take (unat l) (drop (file_pos f) (file_data f)) in
                case (if hasSize m (unat offset') (unat l)
                      then Memory_Write m (unat offset') chunk else None) of
                  None \<Rightarrow> Inl ErrnoFault
                | Some m' \<Rightarrow>
                    (let f' = f\<lparr>file_pos := file_pos f + length chunk\<rparr>;
                         nread' = nread + length chunk
                     in if length chunk < unat l then Inr (m', f', nread')
                        else readIovs k (iovPtr + 8) m' f' nread'))))"

lemma readIovs_numeral [simp]:
  "readIovs (numeral k) iovPtr m f nread = readIovs (Suc (pred_numeral k)) iovPtr m f nread"
  by (simp add: numeral_eq_Suc)

definition FdRead ::
  "SysContext \<Rightarrow> MemoryInstance \<Rightarrow> u32 \<Rightarrow> u32 \<Rightarrow> u32 \<Rightarrow> u32
     \<Rightarrow> Errno \<times> MemoryInstance \<times> SysContext" where
  "FdRead sys m fd iovs iovsCount resultSize =
     (case map_of (sys_openedFiles sys) fd of
        None \<Rightarrow> (ErrnoBadf, m, sys)
      | Some entry \<Rightarrow>
          (case File entry of
             None \<Rightarrow> (ErrnoBadf, m, sys)
           | Some f \<Rightarrow>
               (case readIovs (unat iovsCount) (unat iovs) m f 0 of
                  Inl errno \<Rightarrow> (errno, m, sys)
                | Inr (m', f', nread) \<Rightarrow>
                    (let sys' = sys\<lparr>sys_openedFiles :=
                                  AList.update fd (entry\<lparr>File := Some f'\<rparr>) (sys_openedFiles sys)\<rparr>
                     in case Memory_WriteUint32Le m' (unat resultSize) (word_of_nat nread) of
                          None \<Rightarrow> (ErrnoFault, m', sys')
                        | Some m'' \<Rightarrow> (ErrnoSuccess, m'', sys')))))"

text \<open>The inputs of the two scenarios of the spec: the system context with argv
  \<^verbatim>\<open>["a", "bc"]\<close>, the one with a file holding \<^verbatim>\<open>"wazero"\<close> open at descriptor 3, the
  sixteen bytes of the two iovecs, and a one-page memory filled with \<^verbatim>\<open>'?'\<close>.\<close>

definition sys_a_bc :: SysContext where
  "sys_a_bc = \<lparr>sys_args = [''a'', ''bc''], sys_environ = [], sys_stdin = None,
                sys_stdout = None, sys_stderr = None, sys_openedFiles = []\<rparr>"

definition sys_wazero :: SysContext where
  "sys_wazero =
     \<lparr>sys_args = [], sys_environ = [], sys_stdin = None, sys_stdout = None, sys_stderr = None,
      sys_openedFiles =
        [(3, \<lparr>Path = ''test_path'', FS = Some 0,
              File = Some \<lparr>file_data = string_bytes ''wazero'', file_pos = 0\<rparr>\<rparr>)]\<rparr>"

definition iovs_18_4_23_2 :: "byte list" where
  "iovs_18_4_23_2 = [18, 0, 0, 0, 4, 0, 0, 0, 23, 0, 0, 0, 2, 0, 0, 0]"

definition maskedMemory :: MemoryInstance where
  "maskedMemory = \<lparr>Buffer = (\<lambda>_. of_char CHR ''?''), Buffer_len = 65536\<rparr>"

definition memory_with_iovs :: MemoryInstance where
  "memory_with_iovs = maskedMemory\<lparr>Buffer := write_bytes (Buffer maskedMemory) 1 iovs_18_4_23_2\<rparr>"

section \<open>The store: instantiate, call, close\<close>

text \<open>
  Modelled from the spec: the store (\<^verbatim>\<open>internal/wasm/store.go\<close>), its call contexts and
  the exit error of package \<^verbatim>\<open>sys\<close> are not in the sources at hand; only their tests
  are. The spec says of the store:
  \<^item> \<^verbatim>\<open>instantiate(module, name, ...)\<close> fails with "module X has already been
    instantiated" for a name in use, resolves every import by looking its module up in
    the store's name map ("module[X] not instantiated", "name is not exported in module
    X"), asks the engine to compile ("compilation failed"), runs the start function if
    present ("start function failed"), and is atomic: after a failure no module of that
    name is observable;
  \<^item> an importing module adds 1 to the dependent count of each module it imports, closing
    it takes the 1 back, and closing a module that still has dependents is a defined
    error;
  \<^item> closing marks the module closed with the exit code, after which every call of its
    exported functions fails with an exit error holding the module name and the code;
    closing again succeeds and frees nothing twice; closing the store closes every module
    in it;
  \<^item> \<^verbatim>\<open>proc_exit(code)\<close> ends the running call with the exit error of the module name and
    the code, also for code 0.
  The tests read the closed mark of a module as \<^verbatim>\<open>1 + exitCode << 32\<close> in a 64-bit
  word, zero meaning open; the model keeps that encoding.
\<close>

datatype CallError =
    ExitError string u32
  | Trap string

text \<open>What a function body does, as far as these claims go: an effect that can be
  observed (it is appended to the trace of the call), a trap, or a call of
  \<^verbatim>\<open>proc_exit\<close>.\<close>

datatype Instr = Effect nat | Unreachable | ProcExit u32

fun exec :: "string \<Rightarrow> Instr list \<Rightarrow> nat list \<Rightarrow> CallError option \<times> nat list" where
  "exec moduleName [] trace = (None, trace)"
| "exec moduleName (Effect k # rest) trace = exec moduleName rest (trace @ [k])"
| "exec moduleName (Unreachable # rest) trace = (Some (Trap ''unreachable''), trace)"
| "exec moduleName (ProcExit code # rest) trace = (Some (ExitError moduleName code), trace)"

record Module =
  ImportSection :: "(string \<times> string) list"
  ExportSection :: "(string \<times> Instr list) list"
  StartSection :: "Instr list option"

record ModuleInstance =
  Name :: string
  importedModules :: "nat list"
  Exports :: "(string \<times> Instr list) list"
  dependentCount :: nat
  closed :: u64

text \<open>The store: the name map, the arena of instances (a handle stays valid after its
  module left the name map), and the log of what the engine was told to release.\<close>

record Store =
  modules :: "(string \<times> nat) list"
  instances :: "nat \<Rightarrow> ModuleInstance option"
  nextInstance :: nat
  released :: "nat list"

definition newStore :: Store where
  "newStore = \<lparr>modules = [], instances = (\<lambda>_. None), nextInstance = 0, released = []\<rparr>"

datatype StoreError =
    AlreadyInstantiated string
  | NotInstantiated string
  | NotExported string string
  | CompilationFailed
  | StartFunctionFailed CallError
  | HasDependents string
  | NoInstance

definition closedFlag :: "u32 \<Rightarrow> u64" where
  "closedFlag code = 1 + push_bit 32 (ucast code)"

definition closedExitCode :: "u64 \<Rightarrow> u32" where
  "closedExitCode flag = ucast (drop_bit 32 flag)"

definition Store_Module :: "Store \<Rightarrow> string \<Rightarrow> ModuleInstance option" where
  "Store_Module s moduleName =
     (case map_of (modules s) moduleName of None \<Rightarrow> None | Some i \<Rightarrow> instances s i)"

fun resolveImports :: "Store \<Rightarrow> (string \<times> string) list \<Rightarrow> StoreError + nat list" where
  "resolveImports s [] = Inr []"
| "resolveImports s ((moduleName, exportName) # rest) =
     (case map_of (modules s) moduleName of
        None \<Rightarrow> Inl (NotInstantiated moduleName)
      | Some i \<Rightarrow>
          (case instances s i of
             None \<Rightarrow> Inl (NotInstantiated moduleName)
           | Some imported \<Rightarrow>
               if map_of (Exports imported) exportName = None
               then Inl (NotExported exportName moduleName)
               else (case resolveImports s rest of
                       Inl e \<Rightarrow> Inl e
                     | Inr is \<Rightarrow> Inr (List.insert i is))))"

definition addDependent :: "nat \<Rightarrow> (nat \<Rightarrow> ModuleInstance option) \<Rightarrow> (nat \<Rightarrow> ModuleInstance option)" where
  "addDependent i insts =
     (case insts i of
        None \<Rightarrow> insts
      | Some m \<Rightarrow> insts(i \<mapsto> m\<lparr>dependentCount := dependentCount m + 1\<rparr>))"

definition dropDependent :: "nat \<Rightarrow> (nat \<Rightarrow> ModuleInstance option) \<Rightarrow> (nat \<Rightarrow> ModuleInstance option)" where
  "dropDependent i insts =
     (case insts i of
        None \<Rightarrow> insts
      | Some m \<Rightarrow> insts(i \<mapsto> m\<lparr>dependentCount := dependentCount m - 1\<rparr>))"

text \<open>\<open>compiles\<close> is the engine: whether it compiles the module.\<close>

definition Store_Instantiate ::
  "(Module \<Rightarrow> bool) \<Rightarrow> Store \<Rightarrow> Module \<Rightarrow> string \<Rightarrow> StoreError + (nat \<times> Store)" where
  "Store_Instantiate compiles s m moduleName =
     (if map_of (modules s) moduleName \<noteq> None then Inl (AlreadyInstantiated moduleName)
      else
        (case resolveImports s (ImportSection m) of
           Inl e \<Rightarrow> Inl e
         | Inr imported \<Rightarrow>
             if \<not> compiles m then Inl CompilationFailed
             else
               (case (case StartSection m of
                        None \<Rightarrow> None
                      | Some start \<Rightarrow> fst (exec moduleName start [])) of
                  Some e \<Rightarrow> Inl (StartFunctionFailed e)
                | None \<Rightarrow>
                    (let i = nextInstance s;
                         inst = \<lparr>Name = moduleName, importedModules = imported,
                                 Exports = ExportSection m, dependentCount = 0, closed = 0\<rparr>
                     in Inr (i, s\<lparr>modules := modules s @ [(moduleName, i)],
                                 instances := (foldr addDependent imported (instances s))(i \<mapsto> inst),
                                 nextInstance := i + 1\<rparr>)))))"

definition Function_Call :: "Store \<Rightarrow> nat \<Rightarrow> string \<Rightarrow> CallError option \<times> nat list" where
  "Function_Call s i functionName =
     (case instances s i of
        None \<Rightarrow> (Some (Trap ''no such module''), [])
      | Some inst \<Rightarrow>
          if closed inst \<noteq> 0 then (Some (ExitError (Name inst) (closedExitCode (closed inst))), [])
          else
            (case map_of (Exports inst) functionName of
               None \<Rightarrow> (Some (Trap ''no such function''), [])
             | Some instrs \<Rightarrow> exec (Name inst) instrs []))"

definition CallContext_CloseWithExitCode :: "Store \<Rightarrow> nat \<Rightarrow> u32 \<Rightarrow> StoreError option \<times> Store" where
  "CallContext_CloseWithExitCode s i exitCode =
     (case instances s i of
        None \<Rightarrow> (Some NoInstance, s)
      | Some inst \<Rightarrow>
          if closed inst \<noteq> 0 then (None, s)
          else if dependentCount inst > 0 then (Some (HasDependents (Name inst)), s)
          else
            (None,
             s\<lparr>modules := AList.delete (Name inst) (modules s),
               instances := (foldr dropDependent (importedModules inst) (instances s))
                              (i \<mapsto> inst\<lparr>closed := closedFlag exitCode\<rparr>),
               released := released s @ [i]\<rparr>))"

text \<open>Closing the store: every module in the name map is marked and released, whatever
  its dependents, and the map is left empty.\<close>

fun closeAll :: "(string \<times> nat) list \<Rightarrow> u32 \<Rightarrow> Store \<Rightarrow> Store" where
  "closeAll [] exitCode s = s"
| "closeAll ((moduleName, i) # rest) exitCode s =
     closeAll rest exitCode
       (case instances s i of
          None \<Rightarrow> s
        | Some inst \<Rightarrow>
            if closed inst \<noteq> 0 then s
            else s\<lparr>instances := (instances s)(i \<mapsto> inst\<lparr>closed := closedFlag exitCode\<rparr>),
                   released := released s @ [i]\<rparr>)"

definition Store_CloseWithExitCode :: "Store \<Rightarrow> u32 \<Rightarrow> Store" where
  "Store_CloseWithExitCode s exitCode = (closeAll (modules s) exitCode s)\<lparr>modules := []\<rparr>"

text \<open>One round of "instantiate, then close", as the hammer test of the store runs it
  many times; a round that fails leaves the store as the failure left it.\<close>

definition instantiateThenClose ::
  "(Module \<Rightarrow> bool) \<Rightarrow> Module \<Rightarrow> Store \<Rightarrow> string \<Rightarrow> Store" where
  "instantiateThenClose compiles m s moduleName =
     (case Store_Instantiate compiles s m moduleName of
        Inl e \<Rightarrow> s
      | Inr (i, s') \<Rightarrow> snd (CallContext_CloseWithExitCode s' i 0))"

text \<open>The stores of the tests: a host module \<^verbatim>\<open>imported\<close> exporting \<^verbatim>\<open>fn\<close>, and on top
  of it a module \<^verbatim>\<open>test\<close> that imports \<^verbatim>\<open>fn\<close> and exports a function calling
  \<^verbatim>\<open>proc_exit(2)\<close> between two effects.\<close>

definition hostModule :: Module where
  "hostModule = \<lparr>ImportSection = [], ExportSection = [(''fn'', [])], StartSection = None\<rparr>"

definition importingModule :: Module where
  "importingModule =
     \<lparr>ImportSection = [(''imported'', ''fn'')],
      ExportSection = [(''run'', [Effect 1, ProcExit 2, Effect 3])],
      StartSection = None\<rparr>"

definition failingStartModule :: Module where
  "failingStartModule =
     \<lparr>ImportSection = [(''imported'', ''fn'')], ExportSection = [],
      StartSection = Some [Unreachable]\<rparr>"

definition storeWithHost :: Store where
  "storeWithHost =
     (case Store_Instantiate (\<lambda>_. True) newStore hostModule ''imported'' of
        Inl e \<Rightarrow> newStore | Inr (i, s) \<Rightarrow> s)"

definition storeWithBoth :: Store where
  "storeWithBoth =
     (case Store_Instantiate (\<lambda>_. True) storeWithHost importingModule ''test'' of
        Inl e \<Rightarrow> storeWithHost | Inr (i, s) \<Rightarrow> s)"

section \<open>Theorems: RuntimeConfig\<close>

lemma bulk_iff_reference_step:
  "bulk_iff_reference c \<Longrightarrow> bulk_iff_reference (runtimeCall_apply c call)"
  by (cases call)
     (auto simp: bulk_iff_reference_def Features_Get_def Features_Set_def
        WithFeatureBulkMemoryOperations_def WithFeatureMultiValue_def
        WithFeatureMutableGlobal_def WithFeatureNonTrappingFloatToIntConversion_def
        WithFeatureReferenceTypes_def WithFeatureSignExtensionOps_def WithFeatureSIMD_def
        WithWasmCore1_def WithWasmCore2_def Features20191205_def Features20220419_def)

lemma bulk_iff_reference_chain:
  "bulk_iff_reference c \<Longrightarrow> bulk_iff_reference (foldl runtimeCall_apply c calls)"
  by (induction calls arbitrary: c) (simp_all add: bulk_iff_reference_step)

lemma bulk_iff_reference_engineLess:
  "bulk_iff_reference (engineLessConfig\<lparr>newEngine := e\<rparr>)"
  by (simp add: bulk_iff_reference_def engineLessConfig_def Features20191205_def Features_Get_def)

text \<open>
  C7. Setting bulk-memory-operations sets reference-types to the same value, and the other
  way round, whatever the receiver; and every configuration reached from either
  constructor by any chain of With* calls has the two flags equal.
\<close>

theorem C7_bulk_memory_reference_types_coupled:
  "Features_Get (runtimeConfig.enabledFeatures (WithFeatureBulkMemoryOperations c b)) FeatureBulkMemoryOperations = b
   \<and> Features_Get (runtimeConfig.enabledFeatures (WithFeatureBulkMemoryOperations c b)) FeatureReferenceTypes = b
   \<and> Features_Get (runtimeConfig.enabledFeatures (WithFeatureReferenceTypes c b)) FeatureReferenceTypes = b
   \<and> Features_Get (runtimeConfig.enabledFeatures (WithFeatureReferenceTypes c b)) FeatureBulkMemoryOperations = b
   \<and> bulk_iff_reference (runtimeConfig_chain NewRuntimeConfigCompiler calls)
   \<and> bulk_iff_reference (runtimeConfig_chain NewRuntimeConfigInterpreter calls)"
proof -
  have set_get: "\<And>c b.
      Features_Get (runtimeConfig.enabledFeatures (WithFeatureBulkMemoryOperations c b)) FeatureBulkMemoryOperations = b
    \<and> Features_Get (runtimeConfig.enabledFeatures (WithFeatureBulkMemoryOperations c b)) FeatureReferenceTypes = b
    \<and> Features_Get (runtimeConfig.enabledFeatures (WithFeatureReferenceTypes c b)) FeatureReferenceTypes = b
    \<and> Features_Get (runtimeConfig.enabledFeatures (WithFeatureReferenceTypes c b)) FeatureBulkMemoryOperations = b"
    by (auto simp: WithFeatureBulkMemoryOperations_def WithFeatureReferenceTypes_def
          Features_Get_def Features_Set_def)
  have "bulk_iff_reference (runtimeConfig_chain NewRuntimeConfigCompiler calls)"
    unfolding runtimeConfig_chain_def NewRuntimeConfigCompiler_def
    by (rule bulk_iff_reference_chain) (rule bulk_iff_reference_engineLess)
  moreover have "bulk_iff_reference (runtimeConfig_chain NewRuntimeConfigInterpreter calls)"
    unfolding runtimeConfig_chain_def NewRuntimeConfigInterpreter_def
    by (rule bulk_iff_reference_chain) (rule bulk_iff_reference_engineLess)
  ultimately show ?thesis using set_get by blast
qed

section \<open>Theorems: ModuleConfig\<close>

lemma key_has_eq_iff: "(\<exists>j < length key. key ! j = CHR ''='') \<longleftrightarrow> CHR ''='' \<in> set key"
  by (auto simp: in_set_conv_nth)

lemma environ_loop_bad:
  "\<exists>kv \<in> set kvs. bad_key (fst kv) \<Longrightarrow> \<exists>msg. environ_loop (pairs_of kvs) acc = Inl (Error msg)"
proof (induction kvs arbitrary: acc)
  case Nil
  then show ?case by simp
next
  case (Cons kv kvs)
  show ?case
  proof (cases "bad_key (fst kv)")
    case True
    then show ?thesis
      by (auto simp: pairs_of_def bad_key_def key_has_eq_iff)
  next
    case False
    with Cons.prems have "\<exists>kv \<in> set kvs. bad_key (fst kv)" by auto
    from Cons.IH [OF this] obtain msg
      where "environ_loop (pairs_of kvs) (acc @ [fst kv @ ''='' @ snd kv]) = Inl (Error msg)"
      by blast
    with False show ?thesis
      by (auto simp: pairs_of_def bad_key_def key_has_eq_iff)
  qed
qed

lemma environ_loop_good:
  "\<not> (\<exists>kv \<in> set kvs. bad_key (fst kv)) \<Longrightarrow>
     environ_loop (pairs_of kvs) acc = Inr (acc @ map render kvs)"
proof (induction kvs arbitrary: acc)
  case Nil
  then show ?case by (simp add: pairs_of_def)
next
  case (Cons kv kvs)
  then have good: "\<not> bad_key (fst kv)" and rest: "\<not> (\<exists>kv \<in> set kvs. bad_key (fst kv))"
    by auto
  have "environ_loop (pairs_of (kv # kvs)) acc
          = environ_loop (pairs_of kvs) (acc @ [render kv])"
    using good by (simp add: pairs_of_def bad_key_def key_has_eq_iff render_def)
  also have "\<dots> = Inr ((acc @ [render kv]) @ map render kvs)"
    by (rule Cons.IH [OF rest])
  finally show ?case by simp
qed

lemma preopens_loop_all_set:
  "all_FS_set entries \<Longrightarrow> \<exists>r. preopens_loop entries rootFD setWorkDirFS = Inr r"
  by (induction entries rootFD setWorkDirFS rule: preopens_loop.induct)
     (auto simp: all_FS_set_def)

text \<open>
  C8 (amended). Given that no pre-opened file system is nil, \<^verbatim>\<open>toSysContext\<close> fails if and
  only if some configured key is empty or holds \<^verbatim>\<open>=\<close>, or \<^verbatim>\<open>NewSysContext\<close> refuses
  what it is handed; a bad key always gives an error of \<^verbatim>\<open>toSysContext\<close>'s own; and with
  no bad key every configured pair reaches \<^verbatim>\<open>NewSysContext\<close> rendered as
  \<^verbatim>\<open>key=value\<close>, in order, the outcome of the call being the constructor's.
\<close>

theorem C8_toSysContext_environ:
  assumes env: "environ_entries h c = pairs_of kvs"
      and fs: "all_FS_set (preopens_entries h c)"
  shows "\<exists>h' opened.
           (isl (toSysContext newSys c h) \<longleftrightarrow>
              (\<exists>kv \<in> set kvs. bad_key (fst kv))
              \<or> isl (newSys (- 1) (args c) (map render kvs) (stdin c) (stdout c) (stderr c) opened))
         \<and> ((\<exists>kv \<in> set kvs. bad_key (fst kv)) \<longrightarrow>
              (\<exists>msg. toSysContext newSys c h = Inl (Error msg)))
         \<and> (\<not> (\<exists>kv \<in> set kvs. bad_key (fst kv)) \<longrightarrow>
              toSysContext newSys c h =
                (case newSys (- 1) (args c) (map render kvs) (stdin c) (stdout c) (stderr c) opened of
                   Inl e \<Rightarrow> Inl e
                 | Inr sys \<Rightarrow> Inr (sys, h')))"
proof (cases "\<exists>kv \<in> set kvs. bad_key (fst kv)")
  case True
  from environ_loop_bad [OF True] obtain msg
    where "environ_loop (pairs_of kvs) [] = Inl (Error msg)" by blast
  then have "toSysContext newSys c h = Inl (Error msg)"
    using env by (simp add: toSysContext_def environ_entries_def)
  with True show ?thesis by auto
next
  case False
  have loop1: "environ_loop (slice_elems h (environ c)) [] = Inr (map render kvs)"
    using environ_loop_good [OF False, of "[]"] env by (simp add: environ_entries_def)
  from preopens_loop_all_set [OF fs] obtain rootFD setWorkDirFS
    where loop2: "preopens_loop (preopens_entries h c) 0 False = Inr (rootFD, setWorkDirFS)"
    by fastforce
  define h' where "h' =
     (if rootFD \<noteq> 0 \<and> \<not> setWorkDirFS then
        (case (preopens c, map_of (preopens_entries h c) rootFD) of
           (Some p, Some root) \<Rightarrow>
             h\<lparr>entryMaps := (entryMaps h)
                 (p := AList.update (preopenFD c) \<lparr>Path = ''.'', FS = FS root, File = None\<rparr> (entryMaps h p))\<rparr>
         | _ \<Rightarrow> h)
      else h)"
  have run: "toSysContext newSys c h =
      (case newSys (- 1) (args c) (map render kvs) (stdin c) (stdout c) (stderr c)
              (preopens_entries h' c) of
         Inl e \<Rightarrow> Inl e
       | Inr sys \<Rightarrow> Inr (sys, h'))"
    unfolding toSysContext_def loop1 loop2 h'_def by (simp add: Let_def)
  have "isl (toSysContext newSys c h) \<longleftrightarrow>
          isl (newSys (- 1) (args c) (map render kvs) (stdin c) (stdout c) (stderr c)
                 (preopens_entries h' c))"
    unfolding run by (simp split: sum.splits)
  with False run show ?thesis by blast
qed

theorem C8_toSysContext_environ_witness:
  "\<exists>h' opened.
     (isl (toSysContext NewSysContext (fst config_a_b_rootfs) (snd config_a_b_rootfs)) \<longleftrightarrow>
        isl (NewSysContext (- 1) [] [''a=b''] None None None opened))
   \<and> toSysContext NewSysContext (fst config_a_b_rootfs) (snd config_a_b_rootfs) =
       (case NewSysContext (- 1) [] [''a=b''] None None None opened of
          Inl e \<Rightarrow> Inl e
        | Inr sys \<Rightarrow> Inr (sys, h'))"
proof -
  have env: "environ_entries (snd config_a_b_rootfs) (fst config_a_b_rootfs)
               = pairs_of [(''a'', ''b'')]"
    by (simp add: config_a_b_rootfs_def NewModuleConfig_def empty_heap_def WithEnv_def
          environKeys_entries_def append2_def nil_slice_def grow_exact_def WithFS_def setFS_def
          preopenPaths_entries_def environ_entries_def slice_elems_def pairs_of_def Let_def)
  have fs: "all_FS_set (preopens_entries (snd config_a_b_rootfs) (fst config_a_b_rootfs))"
    by (simp add: config_a_b_rootfs_def NewModuleConfig_def empty_heap_def WithEnv_def
          environKeys_entries_def append2_def nil_slice_def grow_exact_def WithFS_def setFS_def
          preopenPaths_entries_def preopens_entries_def all_FS_set_def Let_def)
  have args: "args (fst config_a_b_rootfs) = []" "stdin (fst config_a_b_rootfs) = None"
    "stdout (fst config_a_b_rootfs) = None" "stderr (fst config_a_b_rootfs) = None"
    by (simp_all add: config_a_b_rootfs_def NewModuleConfig_def empty_heap_def WithEnv_def
          environKeys_entries_def append2_def nil_slice_def grow_exact_def WithFS_def setFS_def
          preopenPaths_entries_def Let_def)
  show ?thesis
    using C8_toSysContext_environ [OF env fs, of NewSysContext]
    by (simp add: args bad_key_def render_def)
qed

text \<open>
  C8 as stated fails: the key \<^verbatim>\<open>"a\x00"\<close> is neither empty nor holds \<^verbatim>\<open>=\<close>, no file
  system is pre-opened, and the conversion still ends in an error (the one
  \<^verbatim>\<open>NewSysContext\<close> raises for a NUL).
\<close>

theorem C8_nul_key_counterexample:
  "environ_entries (snd config_nul_key) (fst config_nul_key) = pairs_of [([CHR ''a'', CHR 0x00], ''b'')]
   \<and> \<not> bad_key [CHR ''a'', CHR 0x00]
   \<and> all_FS_set (preopens_entries (snd config_nul_key) (fst config_nul_key))
   \<and> toSysContext NewSysContext (fst config_nul_key) (snd config_nul_key)
       = Inl (Error ''environ invalid: contains NUL character'')"
proof -
  let ?c = "fst config_nul_key" and ?h = "snd config_nul_key"
  have env: "environ_entries ?h ?c = pairs_of [([CHR ''a'', CHR 0x00], ''b'')]"
    by (simp add: config_nul_key_def NewModuleConfig_def empty_heap_def WithEnv_def
          environKeys_entries_def append2_def nil_slice_def grow_exact_def
          environ_entries_def slice_elems_def pairs_of_def Let_def)
  have good: "\<not> bad_key [CHR ''a'', CHR 0x00]"
    by (simp add: bad_key_def)
  have pre: "preopens_entries ?h ?c = []"
    by (simp add: config_nul_key_def NewModuleConfig_def empty_heap_def WithEnv_def
          environKeys_entries_def append2_def nil_slice_def grow_exact_def
          preopens_entries_def Let_def)
  have rest: "args ?c = []" "stdin ?c = None" "stdout ?c = None" "stderr ?c = None"
    by (simp_all add: config_nul_key_def NewModuleConfig_def empty_heap_def WithEnv_def
          environKeys_entries_def append2_def nil_slice_def grow_exact_def Let_def)
  have loop: "environ_loop (slice_elems ?h (environ ?c)) []
                = Inr [[CHR ''a'', CHR 0x00] @ ''='' @ ''b'']"
    using environ_loop_good [of "[([CHR ''a'', CHR 0x00], ''b'')]" "[]"] good env
    by (simp add: environ_entries_def render_def)
  have "toSysContext NewSysContext ?c ?h = Inl (Error ''environ invalid: contains NUL character'')"
    unfolding toSysContext_def loop by (simp add: pre rest NewSysContext_def)
  with env good pre show ?thesis by (simp add: all_FS_set_def)
qed

text \<open>
  C10. The documentation of \<^verbatim>\<open>ModuleConfig\<close> promises that each \<^verbatim>\<open>With*\<close> method
  returns a new instance and leaves the receiver as it was. On the code, the maps and the
  backing array are shared between receiver and result:
  after \<^verbatim>\<open>c1 := c0.WithFS(fs)\<close> the receiver \<^verbatim>\<open>c0\<close> maps \<^verbatim>\<open>"/"\<close> to descriptor 3, which it
  did not before; and after \<^verbatim>\<open>c3 := c2.WithEnv("k", "v2")\<close> the receiver \<^verbatim>\<open>c2\<close>, built with
  \<^verbatim>\<open>"k" = "v1"\<close>, reads \<^verbatim>\<open>"k" = "v2"\<close>.
\<close>

theorem C10_With_methods_change_receiver:
  "(case NewModuleConfig empty_heap of
      (c0, h0) \<Rightarrow>
        (case WithFS c0 (Some fs) h0 of
           Inl _ \<Rightarrow> False
         | Inr (c1, h1) \<Rightarrow>
             preopenPaths_entries h0 c0 = []
           \<and> preopenPaths_entries h1 c0 = [(''/'', 3)]
           \<and> preopens_entries h0 c0 = []
           \<and> preopens_entries h1 c0 = [(3, \<lparr>Path = ''/'', FS = Some fs, File = None\<rparr>)]
           \<and> (case WithEnv grow c1 ''k'' ''v1'' h1 of
                Inl _ \<Rightarrow> False
              | Inr (c2, h2) \<Rightarrow>
                  (case WithEnv grow c2 ''k'' ''v2'' h2 of
                     Inl _ \<Rightarrow> False
                   | Inr (c3, h3) \<Rightarrow>
                       environ_entries h2 c2 = [''k'', ''v1'']
                     \<and> environ_entries h3 c2 = [''k'', ''v2'']))))"
  by (simp add: NewModuleConfig_def empty_heap_def WithEnv_def WithFS_def setFS_def
        environKeys_entries_def preopenPaths_entries_def preopens_entries_def
        append2_def nil_slice_def environ_entries_def slice_elems_def Let_def)

section \<open>Theorems: lowering to the IR\<close>

lemmas run_defs =
  handleInstruction_def applyToStack_def hasIndexImmediate_def
  body_at_def body_from_def andThen_def wrapped_def break_def
  case_OpcodeUnreachable_def case_OpcodeBlock_def case_OpcodeBr_def case_OpcodeEnd_def
  case_OpcodeI32Const_def decodeBlockType_at_def DecodeBlockType_def DecodeUint32_def
  DecodeInt32_def enterUnreachableBlock_def newFrame_def nextID_def frames_push_def
  frames_pop_def frames_top_def frames_get_def frames_index_def frames_empty_def
  frames_update_def readTarget_def branchTarget_def emit_def markUnreachable_def
  resetUnreachable_def stackPush_def stackPop_def stackTruncate_def pushValueTypes_def
  addLabelCaller_def getFrameDropRange_def asBranchTarget_def ensureContinuation_def
  endOfFrame_def exampleSignatures_def signature_None_None_def signature_I32_None_def
  signature_None_I32_def signature_I32I32_I32_def
  compileBody_def compile_def compile_init_def calcLocalIndexToStackHeight_def slotsOf_def
  noneToNone_def emitted_def

lemma operatorSwitch_I32And:
  "operatorSwitch OpcodeI32And index c
     = Inr (Break (emit [OpNumeric (OperationAnd UnsignedInt32)] c))"
  by (simp add: operatorSwitch_def opcode_defs memoryOperations_def plainOperations_def
        break_def andThen_def)

lemma operatorSwitch_I32Or:
  "operatorSwitch OpcodeI32Or index c
     = Inr (Break (emit [OpNumeric (OperationOr UnsignedInt32)] c))"
  by (simp add: operatorSwitch_def opcode_defs memoryOperations_def plainOperations_def
        break_def andThen_def)

lemma operatorSwitch_I32Xor:
  "operatorSwitch OpcodeI32Xor index c
     = Inr (Break (emit [OpNumeric (OperationXor UnsignedInt64)] c))"
  by (simp add: operatorSwitch_def opcode_defs memoryOperations_def plainOperations_def
        break_def andThen_def)

lemma operatorSwitch_I64Xor:
  "operatorSwitch OpcodeI64Xor index c
     = Inr (Break (emit [OpNumeric (OperationXor UnsignedInt64)] c))"
  by (simp add: operatorSwitch_def opcode_defs memoryOperations_def plainOperations_def
        break_def andThen_def)

lemma compile_i32_xor:
  "emitted (compileBody body_i32_xor)
     = Some (Inr [OpConst (OperationConstI32 1), OpConst (OperationConstI32 2),
                  OpNumeric (OperationXor UnsignedInt64)])"
  by (simp add: body_i32_xor_def compile_loop.simps run_defs operatorSwitch_def opcode_defs
        memoryOperations_def plainOperations_def Let_def)

lemma compile_i32_and:
  "emitted (compileBody body_i32_and)
     = Some (Inr [OpConst (OperationConstI32 1), OpConst (OperationConstI32 2),
                  OpNumeric (OperationAnd UnsignedInt32)])"
  by (simp add: body_i32_and_def compile_loop.simps run_defs operatorSwitch_def opcode_defs
        memoryOperations_def plainOperations_def Let_def)

text \<open>
  C9. \<^verbatim>\<open>i32.and\<close> and \<^verbatim>\<open>i32.or\<close> are lowered to their operation tagged
  \<^verbatim>\<open>UnsignedInt32\<close>; \<^verbatim>\<open>i32.xor\<close> is lowered to \<^verbatim>\<open>OperationXor\<close> tagged
  \<^verbatim>\<open>UnsignedInt64\<close>, the tag of \<^verbatim>\<open>i64.xor\<close>. The first three conjuncts are the cases of
  the switch at any compiler state, the last is a whole run of \<^verbatim>\<open>compile\<close> on
  \<^verbatim>\<open>i32.const 1; i32.const 2; i32.xor\<close>.
\<close>

theorem C9_i32_xor_lowered_with_64_bit_tag:
  "operatorSwitch OpcodeI32And index c
     = Inr (Break (emit [OpNumeric (OperationAnd UnsignedInt32)] c))
   \<and> operatorSwitch OpcodeI32Or index c
     = Inr (Break (emit [OpNumeric (OperationOr UnsignedInt32)] c))
   \<and> operatorSwitch OpcodeI32Xor index c
     = Inr (Break (emit [OpNumeric (OperationXor UnsignedInt64)] c))
   \<and> emitted (compileBody body_i32_xor)
     = Some (Inr [OpConst (OperationConstI32 1), OpConst (OperationConstI32 2),
                  OpNumeric (OperationXor UnsignedInt64)])"
  using operatorSwitch_I32And operatorSwitch_I32Or operatorSwitch_I32Xor compile_i32_xor
  by simp

lemma compile_br0_in_dead_block:
  "emitted (compileBody body_br0_in_dead_block) = Some (Inr [OpControl OperationUnreachable])"
  by (simp add: body_br0_in_dead_block_def compile_loop.simps run_defs operatorSwitch_def
        opcode_defs Let_def)

text \<open>
  C1. The body \<^verbatim>\<open>unreachable; block; br 1; end; end\<close> is valid: label 1 inside the block
  is the function's own label. \<^verbatim>\<open>unreachable\<close> puts the compiler in the unreachable state
  and the block only raises the depth, no frame being pushed for it. The case of \<^verbatim>\<open>br\<close>
  does not look at the unreachable state before it indexes the control frames with the
  label: \<^verbatim>\<open>c.controlFrames.get(1)\<close> on the single function frame is out of range, and
  \<^verbatim>\<open>compile\<close> ends in Go's panic instead of stepping over the instruction.
\<close>

theorem C1_br_in_dead_block_panics:
  "compileBody body_br_in_dead_block = Some (Inl (Panic ''index out of range''))"
  by (simp add: body_br_in_dead_block_def compile_loop.simps run_defs operatorSwitch_def
        opcode_defs Let_def)

section \<open>Theorems: WASI host functions\<close>

lemma upt_0_16: "[0 ..< 16] = [0, 1, 2, 3, 4, 5, 6, 7, 8, 9, 10, 11, 12, 13, 14, 15]"
  by (simp add: upt_conv_Cons upt_rec_numeral)

lemma ArgsGet_a_bc:
  assumes "15 \<le> Buffer_len m"
  shows "ArgsGet sys_a_bc m 7 1 =
           (ErrnoSuccess,
            m\<lparr>Buffer := (Buffer m)
                 (7 := 1, 8 := 0, 9 := 0, 10 := 0, 1 := of_char CHR ''a'', 2 := 0,
                  11 := 3, 12 := 0, 13 := 0, 14 := 0,
                  3 := of_char CHR ''b'', 4 := of_char CHR ''c'', 5 := 0)\<rparr>)"
  using assms
  by (simp add: ArgsGet_def sys_a_bc_def hasSize_def argsSize_def le_bytes32_def
        string_bytes_def)
     (simp add: eval_nat_numeral)

text \<open>
  C3. With argv \<^verbatim>\<open>["a", "bc"]\<close>, \<^verbatim>\<open>args_get(7, 1)\<close> on any memory of at least 15 bytes
  returns errno 0; afterwards the memory holds \<^verbatim>\<open>a\0bc\0\<close> from offset 1 and the two
  little-endian offsets 1 and 3 from offset 7, and is what it was everywhere else.
\<close>

theorem C3_args_get_a_bc:
  assumes "15 \<le> Buffer_len m"
  shows "Errno_code (fst (ArgsGet sys_a_bc m 7 1)) = 0
       \<and> snd (ArgsGet sys_a_bc m 7 1) =
           m\<lparr>Buffer :=
               write_bytes
                 (write_bytes (Buffer m) 1 (string_bytes ''a'' @ [0] @ string_bytes ''bc'' @ [0]))
                 7 (le_bytes32 1 @ le_bytes32 3)\<rparr>"
proof -
  have "(Buffer m)(7 := 1, 8 := 0, 9 := 0, 10 := 0, 1 := of_char CHR ''a'', 2 := 0,
                   11 := 3, 12 := 0, 13 := 0, 14 := 0,
                   3 := of_char CHR ''b'', 4 := of_char CHR ''c'', 5 := 0)
        = write_bytes
            (write_bytes (Buffer m) 1 (string_bytes ''a'' @ [0] @ string_bytes ''bc'' @ [0]))
            7 (le_bytes32 1 @ le_bytes32 3)"
    by (simp add: string_bytes_def le_bytes32_def fun_eq_iff)
  then show ?thesis
    by (simp add: ArgsGet_a_bc [OF assms])
qed

theorem C3_args_get_a_bc_witness:
  "Errno_code (fst (ArgsGet sys_a_bc maskedMemory 7 1)) = 0
   \<and> map (Buffer (snd (ArgsGet sys_a_bc maskedMemory 7 1))) [0 ..< 16] =
       string_bytes ''?'' @ string_bytes ''a'' @ [0] @ string_bytes ''bc'' @ [0]
       @ string_bytes ''?'' @ [1, 0, 0, 0] @ [3, 0, 0, 0] @ string_bytes ''?''"
proof -
  have "15 \<le> Buffer_len maskedMemory"
    by (simp add: maskedMemory_def)
  from C3_args_get_a_bc [OF this]
  have "Errno_code (fst (ArgsGet sys_a_bc maskedMemory 7 1)) = 0"
    and "Buffer (snd (ArgsGet sys_a_bc maskedMemory 7 1)) =
           write_bytes
             (write_bytes (\<lambda>_. of_char CHR ''?'') 1
                (string_bytes ''a'' @ [0] @ string_bytes ''bc'' @ [0]))
             7 (le_bytes32 1 @ le_bytes32 3)"
    by (simp_all add: maskedMemory_def)
  then show ?thesis
    by (simp add: string_bytes_def le_bytes32_def upt_0_16)
qed

lemma FdRead_wazero:
  assumes "30 \<le> Buffer_len m"
  shows "FdRead sys_wazero (m\<lparr>Buffer := write_bytes (Buffer m) 1 iovs_18_4_23_2\<rparr>) 3 1 2 26 =
     (ErrnoSuccess,
      m\<lparr>Buffer := (write_bytes (Buffer m) 1 iovs_18_4_23_2)
           (18 := of_char CHR ''w'', 19 := of_char CHR ''a'', 20 := of_char CHR ''z'',
            21 := of_char CHR ''e'', 23 := of_char CHR ''r'', 24 := of_char CHR ''o'',
            26 := 6, 27 := 0, 28 := 0, 29 := 0)\<rparr>,
      sys_wazero\<lparr>sys_openedFiles :=
        [(3, \<lparr>Path = ''test_path'', FS = Some 0,
              File = Some \<lparr>file_data = string_bytes ''wazero'', file_pos = 6\<rparr>\<rparr>)]\<rparr>)"
  using assms
  by (simp add: FdRead_def sys_wazero_def iovs_18_4_23_2_def Memory_ReadUint32Le_def
        Memory_WriteUint32Le_def Memory_Write_def hasSize_def le_uint32_def le_bytes32_def
        string_bytes_def Let_def)

text \<open>
  C2. A file holding \<^verbatim>\<open>wazero\<close> is open at descriptor 3 and the iovecs
  \<^verbatim>\<open>(18, 4), (23, 2)\<close> are stored at offset 1 of a memory of at least 30 bytes. Then
  \<^verbatim>\<open>fd_read(3, 1, 2, 26)\<close> returns errno 0, the bytes 18 to 21 are \<^verbatim>\<open>waze\<close>, the bytes 23
  and 24 are \<^verbatim>\<open>ro\<close>, and the little-endian \<^verbatim>\<open>u32\<close> at offset 26 is 6.
\<close>

theorem C2_fd_read_scatter:
  assumes "30 \<le> Buffer_len m"
  shows "case FdRead sys_wazero (m\<lparr>Buffer := write_bytes (Buffer m) 1 iovs_18_4_23_2\<rparr>) 3 1 2 26 of
           (errno, m', sys') \<Rightarrow>
             Errno_code errno = 0
           \<and> Memory_Read m' 18 4 = Some (string_bytes ''waze'')
           \<and> Memory_Read m' 23 2 = Some (string_bytes ''ro'')
           \<and> Memory_ReadUint32Le m' 26 = Some 6"
proof -
  note run = FdRead_wazero [OF assms]
  show ?thesis
    unfolding run using assms
    by (simp add: Memory_Read_def Memory_ReadUint32Le_def hasSize_def le_uint32_def
          string_bytes_def upt_rec_numeral)
qed

theorem C2_fd_read_scatter_witness:
  "case FdRead sys_wazero memory_with_iovs 3 1 2 26 of
     (errno, m', sys') \<Rightarrow>
       Errno_code errno = 0
     \<and> Memory_Read m' 18 4 = Some (string_bytes ''waze'')
     \<and> Memory_Read m' 23 2 = Some (string_bytes ''ro'')
     \<and> Memory_ReadUint32Le m' 26 = Some 6"
proof -
  have "30 \<le> Buffer_len maskedMemory"
    by (simp add: maskedMemory_def)
  from C2_fd_read_scatter [OF this] show ?thesis
    by (simp add: memory_with_iovs_def)
qed

end
